theory Spec2Isabelle
  imports Complex_Main "HOL-Library.Multiset"
begin

section \<open>Data model (app/models)\<close>

text \<open>
  The tables of \<^verbatim>\<open>app/models\<close> as records, one list of rows per table. Columns that the
  modelled handlers neither read nor write (timestamps, \<^verbatim>\<open>created_by\<close>,
  \<^verbatim>\<open>quotation_id\<close>, \<^verbatim>\<open>payment_status\<close>, the surrogate keys of the item tables) are
  left out. Integer columns hold Python integers (\<open>int\<close>).
\<close>

datatype SOInvoiceStatus =
  SOInvoiceStatus_not_invoiced | SOInvoiceStatus_partial | SOInvoiceStatus_invoiced

datatype ShipmentStatus =
  ShipmentStatus_not_shipped | ShipmentStatus_partial | ShipmentStatus_shipped

datatype InvoiceStatus =
  InvoiceStatus_unpaid | InvoiceStatus_partial | InvoiceStatus_paid
  | InvoiceStatus_overdue | InvoiceStatus_cancelled

type_synonym date = "nat \<times> nat \<times> nat"

text \<open>
  The numbers a price or a tax rate holds at run time: a \<^verbatim>\<open>Decimal\<close> (coefficient
  and number of fractional digits, \<open>Decimal 1000 2\<close> for \<^verbatim>\<open>10.00\<close>), which is
  what a \<^verbatim>\<open>Numeric\<close> column loads as, or a binary64 \<^verbatim>\<open>float\<close> (mantissa and
  binary exponent, \<open>Float m e\<close> for \<open>m * 2 ^ e\<close>), which is what the request of
  \<^verbatim>\<open>create_sales_order\<close> carries.
\<close>

datatype number = Decimal int nat | Float int int

record SalesOrder =
  so_id :: int
  so_order_number :: string
  so_customer_id :: int
  so_sales_person_id :: "int option"
  so_invoice_status :: SOInvoiceStatus
  so_shipment_status :: ShipmentStatus

record SOItem =
  soi_id :: int
  soi_sales_order_id :: int
  soi_product_id :: int
  soi_quantity :: int
  soi_tax_rate :: number
  soi_price :: number

record Invoice =
  inv_id :: int
  inv_invoice_number :: string
  inv_sales_order_id :: "int option"
  inv_customer_id :: int
  inv_date :: date
  inv_due_date :: date
  inv_status :: InvoiceStatus
  inv_sales_person_id :: "int option"
  inv_notes :: "string option"

record InvoiceItem =
  ii_invoice_id :: int
  ii_so_item_id :: int
  ii_quantity_invoiced :: int

record Shipment =
  shp_id :: int
  shp_sales_order_id :: int
  shp_carrier :: string
  shp_date_delivered :: "date option"
  shp_tracker :: "string option"

record ShipmentItem =
  si_shipment_id :: int
  si_so_item_id :: int
  si_quantity_shipped :: int

record db =
  sales_orders :: "SalesOrder list"
  so_items :: "SOItem list"
  invoices :: "Invoice list"
  invoice_items :: "InvoiceItem list"
  shipments :: "Shipment list"
  shipment_items :: "ShipmentItem list"

subsection \<open>Request bodies (app/routers)\<close>

record InvoiceItemCreate =
  iic_soItemId :: int
  iic_quantity :: int

record CreateInvoiceRequest =
  cir_salesOrderId :: int
  cir_date :: string
  cir_dueDate :: string
  cir_notes :: "string option"
  cir_items :: "InvoiceItemCreate list"

record ShipmentItemCreate =
  sic_soItemId :: int
  sic_quantity :: int

record CreateShipmentRequest =
  csr_salesOrderId :: int
  csr_date :: string
  csr_carrier :: string
  csr_tracker :: "string option"
  csr_items :: "ShipmentItemCreate list"

subsection \<open>Exceptions\<close>

text \<open>
  The exceptions raised inside the handlers' \<^verbatim>\<open>try\<close> blocks. \<open>HTTPException\<close> carries
  the status code and the detail message of the raise site; \<open>ValueError\<close> is what
  \<^verbatim>\<open>datetime.fromisoformat\<close> raises; \<open>IntegrityError\<close> is the violation of a
  primary key or of a \<^verbatim>\<open>unique=True\<close> column at flush; \<open>DataError\<close> is the
  database driver's refusal of an integer outside the 32-bit range of an
  \<^verbatim>\<open>Integer\<close> column. Every one of them is caught by the handler's
  \<^verbatim>\<open>except Exception\<close> and re-raised as a status-400 \<open>HTTPException\<close> whose detail
  is \<^verbatim>\<open>"Failed to create ...: " + str(e)\<close>.
\<close>

datatype detail =
  Sales_order_not_found
  | Invalid_SO_item_ID int
  | Quantity_exceeds_remaining_for_item int

datatype exn =
  HTTPException nat detail
  | ValueError
  | IntegrityError
  | DataError

datatype http_error =
  Failed_to_create_invoice exn
  | Failed_to_create_shipment exn
  | Failed_to_create_sales_order exn

section \<open>Strings\<close>

text \<open>
  Python strings are modelled as \<open>string\<close>, a character standing for the code point of
  the same number (so the model covers code points below 256).
\<close>

definition digit_char :: "nat \<Rightarrow> char" where
  "digit_char d = ''0123456789'' ! d"

fun str_nat :: "nat \<Rightarrow> string" where
  "str_nat n = (if n < 10 then [digit_char n] else str_nat (n div 10) @ [digit_char (n mod 10)])"

declare str_nat.simps [simp del]

text \<open>\<^verbatim>\<open>str(i)\<close> and \<^verbatim>\<open>f"{i}"\<close> for an integer.\<close>

definition str_int :: "int \<Rightarrow> string" where
  "str_int i = (if i < 0 then CHR ''-'' # str_nat (nat (- i)) else str_nat (nat i))"

definition zfill :: "nat \<Rightarrow> string \<Rightarrow> string" where
  "zfill w s = replicate (w - length s) CHR ''0'' @ s"

text \<open>\<^verbatim>\<open>f"{i:03d}"\<close>: the sign counts towards the width of three.\<close>

definition format_03d :: "int \<Rightarrow> string" where
  "format_03d i = (if i < 0 then CHR ''-'' # zfill 2 (str_nat (nat (- i))) else zfill 3 (str_nat (nat i)))"

text \<open>\<^verbatim>\<open>s.split(c)\<close> for a one-character separator: never empty.\<close>

fun split :: "char \<Rightarrow> string \<Rightarrow> string list" where
  "split c [] = [[]]"
| "split c (x # xs) =
     (if x = c then [] # split c xs
      else (case split c xs of [] \<Rightarrow> [[x]] | w # ws \<Rightarrow> (x # w) # ws))"

text \<open>
  \<^verbatim>\<open>int(s)\<close> in base 10: surrounding whitespace is stripped, one sign is allowed, and
  the digits may be separated by single underscores. \<open>None\<close> stands for \<^verbatim>\<open>ValueError\<close>.
  The whitespace \<^verbatim>\<open>int\<close> strips is tab, line feed, vertical tab, form feed, carriage
  return and space, and of the code points above 126 the two spaces 133 and 160; the
  separators 28 to 31 are not stripped. (Python's limit of 4300 digits on the conversion
  is not modelled.)
\<close>

definition is_space :: "char \<Rightarrow> bool" where
  "is_space c = (of_char c \<in> {9, 10, 11, 12, 13, 32, 133, 160 :: nat})"

definition is_digit :: "char \<Rightarrow> bool" where
  "is_digit c = (48 \<le> (of_char c :: nat) \<and> (of_char c :: nat) \<le> 57)"

definition digit_val :: "char \<Rightarrow> nat" where
  "digit_val c = of_char c - 48"

definition strip :: "string \<Rightarrow> string" where
  "strip s = rev (dropWhile is_space (rev (dropWhile is_space s)))"

fun parse_digits :: "nat \<Rightarrow> string \<Rightarrow> nat option" where
  "parse_digits acc [] = Some acc"
| "parse_digits acc [c] = (if is_digit c then Some (acc * 10 + digit_val c) else None)"
| "parse_digits acc (c # d # ds) =
     (if is_digit c then parse_digits (acc * 10 + digit_val c) (d # ds)
      else if c = CHR ''_'' \<and> is_digit d then parse_digits (acc * 10 + digit_val d) ds
      else None)"

definition parse_unsigned :: "string \<Rightarrow> nat option" where
  "parse_unsigned s =
     (case s of [] \<Rightarrow> None
      | c # cs \<Rightarrow> if is_digit c then parse_digits (digit_val c) cs else None)"

definition py_int :: "string \<Rightarrow> int option" where
  "py_int s =
     (case strip s of [] \<Rightarrow> None
      | c # cs \<Rightarrow>
          if c = CHR ''+'' then map_option int (parse_unsigned cs)
          else if c = CHR ''-'' then map_option (\<lambda>n. - int n) (parse_unsigned cs)
          else map_option int (parse_unsigned (c # cs)))"

text \<open>
  The order of \<^verbatim>\<open>ORDER BY ... DESC\<close> on a string column, taken as the code-point
  order of the strings (the database's \<^verbatim>\<open>C\<close> collation), and the pattern
  \<^verbatim>\<open>LIKE 'p%'\<close> for a prefix \<open>p\<close> without wildcards.
\<close>

fun str_le :: "string \<Rightarrow> string \<Rightarrow> bool" where
  "str_le [] t = True"
| "str_le (x # xs) [] = False"
| "str_le (x # xs) (y # ys) = (if x = y then str_le xs ys else (of_char x :: nat) < of_char y)"

fun order_by_desc_limit_1 :: "string list \<Rightarrow> string option" where
  "order_by_desc_limit_1 [] = None"
| "order_by_desc_limit_1 (s # ss) =
     (case order_by_desc_limit_1 ss of
        None \<Rightarrow> Some s
      | Some t \<Rightarrow> if str_le t s then Some s else Some t)"

definition like_prefix :: "string \<Rightarrow> string \<Rightarrow> bool" where
  "like_prefix p s = (take (length p) s = p)"

section \<open>Sequence generator\<close>

text \<open>
  \<^verbatim>\<open>generate_order_number\<close> (app/routers/sales_orders.py) and
  \<^verbatim>\<open>generate_invoice_number\<close> (app/routers/invoices.py). \<open>current_year\<close> is
  \<^verbatim>\<open>datetime.now().year\<close>. \<open>new_num\<close> is the body between the query and the
  final f-string: the empty string is falsy, \<^verbatim>\<open>split\<close> never returns an empty
  list (so \<^verbatim>\<open>IndexError\<close> cannot arise), and \<^verbatim>\<open>ValueError\<close> gives 1.
\<close>

definition new_num :: "string option \<Rightarrow> int" where
  "new_num last_order =
     (case last_order of
        None \<Rightarrow> 1
      | Some l \<Rightarrow>
          if l = [] then 1
          else (case py_int (last (split CHR ''-'' l)) of
                  None \<Rightarrow> 1
                | Some last_num \<Rightarrow> last_num + 1))"

text \<open>The final f-string, \<^verbatim>\<open>f"SO-{current_year}-{new_num:03d}"\<close> for the prefix \<open>SO\<close>.\<close>

definition document_number :: "string \<Rightarrow> int \<Rightarrow> int \<Rightarrow> string" where
  "document_number prefix current_year n =
     prefix @ ''-'' @ str_int current_year @ ''-'' @ format_03d n"

definition last_number :: "string \<Rightarrow> string list \<Rightarrow> string option" where
  "last_number pattern numbers = order_by_desc_limit_1 (filter (like_prefix pattern) numbers)"

definition generate_order_number :: "int \<Rightarrow> db \<Rightarrow> string" where
  "generate_order_number current_year d =
     (let last_order =
            last_number (''SO-'' @ str_int current_year @ ''-'')
              (map so_order_number (sales_orders d))
      in document_number ''SO'' current_year (new_num last_order))"

definition generate_invoice_number :: "int \<Rightarrow> db \<Rightarrow> string" where
  "generate_invoice_number current_year d =
     (let last_invoice =
            last_number (''INV-'' @ str_int current_year @ ''-'')
              (map inv_invoice_number (invoices d))
      in document_number ''INV'' current_year (new_num last_invoice))"


definition largest_number :: "string \<Rightarrow> string list \<Rightarrow> string \<Rightarrow> bool" where
  "largest_number pattern numbers l =
     (l \<in> set numbers \<and> like_prefix pattern l \<and>
      list_all (\<lambda>m. str_le m l) (filter (like_prefix pattern) numbers))"

section \<open>Allocation ledger and status aggregator\<close>

text \<open>
  \<^verbatim>\<open>select(func.sum(col)).where(...)\<close> yields SQL \<^verbatim>\<open>NULL\<close> (Python \<^verbatim>\<open>None\<close>)
  over no rows; \<^verbatim>\<open>result.scalar() or 0\<close> turns \<^verbatim>\<open>None\<close> and 0 into 0.
\<close>

definition func_sum :: "int list \<Rightarrow> int option" where
  "func_sum xs = (if xs = [] then None else Some (sum_list xs))"

definition scalar_or_0 :: "int option \<Rightarrow> int" where
  "scalar_or_0 r = (case r of None \<Rightarrow> 0 | Some v \<Rightarrow> if v = 0 then 0 else v)"

definition invoiced_qty :: "db \<Rightarrow> int \<Rightarrow> int" where
  "invoiced_qty d so_item_id =
     scalar_or_0 (func_sum (map ii_quantity_invoiced
       (filter (\<lambda>r. ii_so_item_id r = so_item_id) (invoice_items d))))"

definition shipped_qty :: "db \<Rightarrow> int \<Rightarrow> int" where
  "shipped_qty d so_item_id =
     scalar_or_0 (func_sum (map si_quantity_shipped
       (filter (\<lambda>r. si_so_item_id r = so_item_id) (shipment_items d))))"

text \<open>
  The values of an \<^verbatim>\<open>Integer\<close> column. An integer outside them is refused with a
  \<^verbatim>\<open>DataError\<close> when it is bound to a statement, as a value to insert or as a key to
  compare the column with.
\<close>

definition int32 :: "int \<Rightarrow> bool" where
  "int32 i = (- 2147483648 \<le> i \<and> i \<le> 2147483647)"

text \<open>
  The body of the loop \<^verbatim>\<open>for item_data in request.items\<close> of
  \<^verbatim>\<open>create_invoice\<close> (lines 176--198), on the state of the open transaction. The
  session has \<^verbatim>\<open>autoflush\<close> at its default, so the rows added by earlier iterations
  are part of the state the sum is taken over. The row added by \<^verbatim>\<open>db.add\<close> is
  inserted at the next flush, which comes before the next statement of the transaction
  or at its commit: a quantity outside the 32-bit range is refused there, and nothing
  runs in between, so the model raises at the \<^verbatim>\<open>db.add\<close>. An item identifier
  outside the range is refused by the \<^verbatim>\<open>select\<close> it is bound to.
\<close>

definition invoice_item_step :: "int \<Rightarrow> SalesOrder \<Rightarrow> InvoiceItemCreate \<Rightarrow> db \<Rightarrow> exn + db" where
  "invoice_item_step invoice_id sales_order item_data d =
     (if \<not> int32 (iic_soItemId item_data) then Inl DataError
      else
      case find (\<lambda>i. soi_id i = iic_soItemId item_data) (so_items d) of
        None \<Rightarrow> Inl (HTTPException 400 (Invalid_SO_item_ID (iic_soItemId item_data)))
      | Some so_item \<Rightarrow>
          if soi_sales_order_id so_item \<noteq> so_id sales_order
          then Inl (HTTPException 400 (Invalid_SO_item_ID (iic_soItemId item_data)))
          else if invoiced_qty d (iic_soItemId item_data) + iic_quantity item_data
                    > soi_quantity so_item
          then Inl (HTTPException 400
                 (Quantity_exceeds_remaining_for_item (iic_soItemId item_data)))
          else if \<not> int32 (iic_quantity item_data) then Inl DataError
          else Inr (d\<lparr>invoice_items := invoice_items d @
                 [\<lparr>ii_invoice_id = invoice_id,
                   ii_so_item_id = iic_soItemId item_data,
                   ii_quantity_invoiced = iic_quantity item_data\<rparr>]\<rparr>))"

fun invoice_items_loop :: "int \<Rightarrow> SalesOrder \<Rightarrow> InvoiceItemCreate list \<Rightarrow> db \<Rightarrow> exn + db" where
  "invoice_items_loop invoice_id sales_order [] d = Inr d"
| "invoice_items_loop invoice_id sales_order (item_data # rest) d =
     (case invoice_item_step invoice_id sales_order item_data d of
        Inl e \<Rightarrow> Inl e
      | Inr d' \<Rightarrow> invoice_items_loop invoice_id sales_order rest d')"

text \<open>
  The loop \<^verbatim>\<open>for so_item in sales_order.items\<close> (lines 200--211) with its two flags,
  and the choice of the status (lines 213--218).
\<close>

fun invoice_flags :: "db \<Rightarrow> SOItem list \<Rightarrow> bool \<times> bool \<Rightarrow> bool \<times> bool" where
  "invoice_flags d [] (fully_invoiced, has_partial) = (fully_invoiced, has_partial)"
| "invoice_flags d (so_item # rest) (fully_invoiced, has_partial) =
     (let total_invoiced = invoiced_qty d (soi_id so_item)
      in invoice_flags d rest
           (if total_invoiced < soi_quantity so_item then False else fully_invoiced,
            if total_invoiced > 0 then True else has_partial))"

definition invoice_status_of :: "bool \<times> bool \<Rightarrow> SOInvoiceStatus" where
  "invoice_status_of flags =
     (case flags of (fully_invoiced, has_partial) \<Rightarrow>
        if fully_invoiced then SOInvoiceStatus_invoiced
        else if has_partial then SOInvoiceStatus_partial
        else SOInvoiceStatus_not_invoiced)"

text \<open>\<^verbatim>\<open>sales_order.items\<close>: the rows of \<^verbatim>\<open>so_items\<close> that reference the order.\<close>

definition order_items :: "db \<Rightarrow> int \<Rightarrow> SOItem list" where
  "order_items d order_id = filter (\<lambda>i. soi_sales_order_id i = order_id) (so_items d)"

definition set_invoice_status :: "int \<Rightarrow> SOInvoiceStatus \<Rightarrow> db \<Rightarrow> db" where
  "set_invoice_status order_id st d =
     d\<lparr>sales_orders :=
         map (\<lambda>so. if so_id so = order_id then so\<lparr>so_invoice_status := st\<rparr> else so)
           (sales_orders d)\<rparr>"

text \<open>
  The block \<^verbatim>\<open>async with db.begin()\<close> of \<^verbatim>\<open>create_invoice\<close> (lines 151--218):
  \<open>Inr\<close> carries the state that is committed; \<open>Inl\<close> is the exception that leaves the
  block, which rolls the transaction back. \<open>fromisoformat\<close> stands for
  \<^verbatim>\<open>datetime.fromisoformat(s).date()\<close>, \<open>None\<close> for its \<^verbatim>\<open>ValueError\<close>.
  \<open>invoice_id\<close> is the key the database gives the new row at the flush (the next value
  of the table's sequence, whatever it is).
\<close>

definition create_invoice_transaction ::
  "(string \<Rightarrow> date option) \<Rightarrow> int \<Rightarrow> int \<Rightarrow> CreateInvoiceRequest \<Rightarrow> db \<Rightarrow> exn + db" where
  "create_invoice_transaction fromisoformat current_year invoice_id request d =
     (if \<not> int32 (cir_salesOrderId request) then Inl DataError
      else
      case find (\<lambda>so. so_id so = cir_salesOrderId request) (sales_orders d) of
        None \<Rightarrow> Inl (HTTPException 404 Sales_order_not_found)
      | Some sales_order \<Rightarrow>
          let invoice_number = generate_invoice_number current_year d in
          (case fromisoformat (cir_date request) of
             None \<Rightarrow> Inl ValueError
           | Some date' \<Rightarrow>
          (case fromisoformat (cir_dueDate request) of
             None \<Rightarrow> Inl ValueError
           | Some due_date \<Rightarrow>
               if invoice_number \<in> set (map inv_invoice_number (invoices d))
                  \<or> invoice_id \<in> set (map inv_id (invoices d))
               then Inl IntegrityError
               else
                 let invoice =
                       \<lparr>inv_id = invoice_id,
                        inv_invoice_number = invoice_number,
                        inv_sales_order_id = Some (cir_salesOrderId request),
                        inv_customer_id = so_customer_id sales_order,
                        inv_date = date',
                        inv_due_date = due_date,
                        inv_status = InvoiceStatus_unpaid,
                        inv_sales_person_id = so_sales_person_id sales_order,
                        inv_notes = cir_notes request\<rparr>;
                     d1 = d\<lparr>invoices := invoices d @ [invoice]\<rparr>
                 in (case invoice_items_loop invoice_id sales_order (cir_items request) d1 of
                       Inl e \<Rightarrow> Inl e
                     | Inr d2 \<Rightarrow>
                         Inr (set_invoice_status (so_id sales_order)
                                (invoice_status_of
                                   (invoice_flags d2 (order_items d (so_id sales_order))
                                      (True, False)))
                                d2)))))"

text \<open>
  The response of \<^verbatim>\<open>create_invoice\<close>, read back after the commit (lines 220--278):
  of \<^verbatim>\<open>InvoiceSchema\<close> the model keeps the invoice's key, number and order, and of
  each \<^verbatim>\<open>LineItem\<close> the quantity of its invoice item. The items come in the order in
  which the database returns the invoice's rows, which the code does not fix: they are
  a multiset.
\<close>

record LineItem =
  li_quantity :: int

record InvoiceSchema =
  is_id :: int
  is_invoiceNumber :: string
  is_salesOrderId :: "int option"
  is_items :: "LineItem multiset"

definition invoice_response :: "db \<Rightarrow> int \<Rightarrow> InvoiceSchema" where
  "invoice_response d invoice_id =
     \<lparr>is_id = invoice_id,
      is_invoiceNumber =
        (case find (\<lambda>i. inv_id i = invoice_id) (invoices d) of
           None \<Rightarrow> [] | Some i \<Rightarrow> inv_invoice_number i),
      is_salesOrderId =
        (case find (\<lambda>i. inv_id i = invoice_id) (invoices d) of
           None \<Rightarrow> None | Some i \<Rightarrow> inv_sales_order_id i),
      is_items =
        mset (map (\<lambda>inv_item. \<lparr>li_quantity = ii_quantity_invoiced inv_item\<rparr>)
          (filter (\<lambda>r. ii_invoice_id r = invoice_id) (invoice_items d)))\<rparr>"

text \<open>
  \<^verbatim>\<open>create_invoice\<close>: the result the handler returns or raises, and the state of the
  database afterwards (the state before, when the transaction was rolled back).
\<close>

definition create_invoice ::
  "(string \<Rightarrow> date option) \<Rightarrow> int \<Rightarrow> int \<Rightarrow> CreateInvoiceRequest \<Rightarrow> db \<Rightarrow> (http_error + InvoiceSchema) \<times> db" where
  "create_invoice fromisoformat current_year invoice_id request d =
     (case create_invoice_transaction fromisoformat current_year invoice_id request d of
        Inl e \<Rightarrow> (Inl (Failed_to_create_invoice e), d)
      | Inr d' \<Rightarrow> (Inr (invoice_response d' invoice_id), d'))"

text \<open>
  \<^verbatim>\<open>create_shipment\<close> (app/routers/shipments.py): the loop body (lines 77--99), the
  status loop (lines 101--119) and the transaction (lines 58--119), as for invoices. An
  empty \<^verbatim>\<open>request.date\<close> is falsy and gives no delivery date. \<open>shipment_id\<close> is
  the key the database gives the new shipment. The handler returns only a message.
\<close>

definition shipment_item_step :: "int \<Rightarrow> SalesOrder \<Rightarrow> ShipmentItemCreate \<Rightarrow> db \<Rightarrow> exn + db" where
  "shipment_item_step shipment_id sales_order item_data d =
     (if \<not> int32 (sic_soItemId item_data) then Inl DataError
      else
      case find (\<lambda>i. soi_id i = sic_soItemId item_data) (so_items d) of
        None \<Rightarrow> Inl (HTTPException 400 (Invalid_SO_item_ID (sic_soItemId item_data)))
      | Some so_item \<Rightarrow>
          if soi_sales_order_id so_item \<noteq> so_id sales_order
          then Inl (HTTPException 400 (Invalid_SO_item_ID (sic_soItemId item_data)))
          else if shipped_qty d (sic_soItemId item_data) + sic_quantity item_data
                    > soi_quantity so_item
          then Inl (HTTPException 400
                 (Quantity_exceeds_remaining_for_item (sic_soItemId item_data)))
          else if \<not> int32 (sic_quantity item_data) then Inl DataError
          else Inr (d\<lparr>shipment_items := shipment_items d @
                 [\<lparr>si_shipment_id = shipment_id,
                   si_so_item_id = sic_soItemId item_data,
                   si_quantity_shipped = sic_quantity item_data\<rparr>]\<rparr>))"

fun shipment_items_loop :: "int \<Rightarrow> SalesOrder \<Rightarrow> ShipmentItemCreate list \<Rightarrow> db \<Rightarrow> exn + db" where
  "shipment_items_loop shipment_id sales_order [] d = Inr d"
| "shipment_items_loop shipment_id sales_order (item_data # rest) d =
     (case shipment_item_step shipment_id sales_order item_data d of
        Inl e \<Rightarrow> Inl e
      | Inr d' \<Rightarrow> shipment_items_loop shipment_id sales_order rest d')"

fun shipment_flags :: "db \<Rightarrow> SOItem list \<Rightarrow> bool \<times> bool \<Rightarrow> bool \<times> bool" where
  "shipment_flags d [] (fully_shipped, has_partial) = (fully_shipped, has_partial)"
| "shipment_flags d (so_item # rest) (fully_shipped, has_partial) =
     (let total_shipped = shipped_qty d (soi_id so_item)
      in shipment_flags d rest
           (if total_shipped < soi_quantity so_item then False else fully_shipped,
            if total_shipped > 0 then True else has_partial))"

definition shipment_status_of :: "bool \<times> bool \<Rightarrow> ShipmentStatus" where
  "shipment_status_of flags =
     (case flags of (fully_shipped, has_partial) \<Rightarrow>
        if fully_shipped then ShipmentStatus_shipped
        else if has_partial then ShipmentStatus_partial
        else ShipmentStatus_not_shipped)"

definition set_shipment_status :: "int \<Rightarrow> ShipmentStatus \<Rightarrow> db \<Rightarrow> db" where
  "set_shipment_status order_id st d =
     d\<lparr>sales_orders :=
         map (\<lambda>so. if so_id so = order_id then so\<lparr>so_shipment_status := st\<rparr> else so)
           (sales_orders d)\<rparr>"

text \<open>
  \<^verbatim>\<open>datetime.fromisoformat(request.date).date() if request.date else None\<close>; the
  outer \<open>None\<close> is the \<^verbatim>\<open>ValueError\<close>.
\<close>

definition date_delivered_of :: "(string \<Rightarrow> date option) \<Rightarrow> string \<Rightarrow> date option option" where
  "date_delivered_of fromisoformat s =
     (if s = [] then Some None else map_option Some (fromisoformat s))"

definition create_shipment_transaction ::
  "(string \<Rightarrow> date option) \<Rightarrow> int \<Rightarrow> CreateShipmentRequest \<Rightarrow> db \<Rightarrow> exn + db" where
  "create_shipment_transaction fromisoformat shipment_id request d =
     (if \<not> int32 (csr_salesOrderId request) then Inl DataError
      else
      case find (\<lambda>so. so_id so = csr_salesOrderId request) (sales_orders d) of
        None \<Rightarrow> Inl (HTTPException 404 Sales_order_not_found)
      | Some sales_order \<Rightarrow>
          (case date_delivered_of fromisoformat (csr_date request) of
             None \<Rightarrow> Inl ValueError
           | Some date_delivered \<Rightarrow>
               if shipment_id \<in> set (map shp_id (shipments d)) then Inl IntegrityError
               else
                 let shipment =
                       \<lparr>shp_id = shipment_id,
                        shp_sales_order_id = csr_salesOrderId request,
                        shp_carrier = csr_carrier request,
                        shp_date_delivered = date_delivered,
                        shp_tracker = csr_tracker request\<rparr>;
                     d1 = d\<lparr>shipments := shipments d @ [shipment]\<rparr>
                 in (case shipment_items_loop shipment_id sales_order (csr_items request) d1 of
                       Inl e \<Rightarrow> Inl e
                     | Inr d2 \<Rightarrow>
                         Inr (set_shipment_status (so_id sales_order)
                                (shipment_status_of
                                   (shipment_flags d2 (order_items d (so_id sales_order))
                                      (True, False)))
                                d2))))"

datatype message = Shipment_created_successfully

definition create_shipment ::
  "(string \<Rightarrow> date option) \<Rightarrow> int \<Rightarrow> CreateShipmentRequest \<Rightarrow> db \<Rightarrow> (http_error + message) \<times> db" where
  "create_shipment fromisoformat shipment_id request d =
     (case create_shipment_transaction fromisoformat shipment_id request d of
        Inl e \<Rightarrow> (Inl (Failed_to_create_shipment e), d)
      | Inr d' \<Rightarrow> (Inr Shipment_created_successfully, d'))"

text \<open>The rows the two transactions insert, named for the statements below.\<close>

definition new_invoice_item :: "int \<Rightarrow> InvoiceItemCreate \<Rightarrow> InvoiceItem" where
  "new_invoice_item invoice_id item_data =
     \<lparr>ii_invoice_id = invoice_id, ii_so_item_id = iic_soItemId item_data,
      ii_quantity_invoiced = iic_quantity item_data\<rparr>"

definition new_invoice ::
  "int \<Rightarrow> int \<Rightarrow> CreateInvoiceRequest \<Rightarrow> db \<Rightarrow> SalesOrder \<Rightarrow> date \<Rightarrow> date \<Rightarrow> Invoice" where
  "new_invoice invoice_id current_year request d sales_order date' due_date =
     \<lparr>inv_id = invoice_id,
      inv_invoice_number = generate_invoice_number current_year d,
      inv_sales_order_id = Some (cir_salesOrderId request),
      inv_customer_id = so_customer_id sales_order,
      inv_date = date',
      inv_due_date = due_date,
      inv_status = InvoiceStatus_unpaid,
      inv_sales_person_id = so_sales_person_id sales_order,
      inv_notes = cir_notes request\<rparr>"

definition new_shipment_item :: "int \<Rightarrow> ShipmentItemCreate \<Rightarrow> ShipmentItem" where
  "new_shipment_item shipment_id item_data =
     \<lparr>si_shipment_id = shipment_id, si_so_item_id = sic_soItemId item_data,
      si_quantity_shipped = sic_quantity item_data\<rparr>"

definition new_shipment :: "int \<Rightarrow> CreateShipmentRequest \<Rightarrow> date option \<Rightarrow> Shipment" where
  "new_shipment shipment_id request date_delivered =
     \<lparr>shp_id = shipment_id,
      shp_sales_order_id = csr_salesOrderId request,
      shp_carrier = csr_carrier request,
      shp_date_delivered = date_delivered,
      shp_tracker = csr_tracker request\<rparr>"

section \<open>Order totals\<close>

text \<open>
  Binary64 floating point, a finite value as a pair of mantissa and binary exponent
  (the value \<open>m * 2 ^ e\<close>, read by \<open>float_val\<close>). \<open>round_ratio n d\<close> is the float
  nearest to \<open>n / d\<close>, ties to the even mantissa, with 53 bits of mantissa and the
  exponent not below that of the subnormals; every operation of Python's \<^verbatim>\<open>float\<close>
  is the exact result rounded so. (Results beyond the largest binary64 value, which
  Python turns into \<^verbatim>\<open>inf\<close>, are outside the model.)
\<close>

type_synonym float = "int \<times> int"

definition float_val :: "float \<Rightarrow> rat" where
  "float_val a =
     (case a of (m, e) \<Rightarrow>
        if 0 \<le> e then of_int m * 2 ^ nat e else of_int m / 2 ^ nat (- e))"

text \<open>\<^verbatim>\<open>n.bit_length()\<close> of a natural number.\<close>

fun bit_length :: "nat \<Rightarrow> nat" where
  "bit_length n = (if n = 0 then 0 else Suc (bit_length (n div 2)))"

declare bit_length.simps [simp del]

text \<open>The integer part of the binary logarithm of \<open>n / d\<close>, for positive \<open>n\<close> and \<open>d\<close>.\<close>

definition floor_log2 :: "int \<Rightarrow> int \<Rightarrow> int" where
  "floor_log2 n d =
     (let k = int (bit_length (nat n)) - int (bit_length (nat d))
      in if (if 0 \<le> k then d * 2 ^ nat k \<le> n else d \<le> n * 2 ^ nat (- k)) then k else k - 1)"

text \<open>\<open>n / d\<close> rounded to the nearest integer, ties to even (\<open>n \<ge> 0\<close>, \<open>d > 0\<close>).\<close>

definition round_half_even :: "int \<Rightarrow> int \<Rightarrow> int" where
  "round_half_even n d =
     (let q = n div d; r = n mod d
      in if 2 * r < d then q else if d < 2 * r then q + 1 else if even q then q else q + 1)"

definition round_ratio :: "int \<Rightarrow> int \<Rightarrow> float" where
  "round_ratio n d =
     (if n = 0 then (0, 0)
      else let a = \<bar>n\<bar>;
               e = max (floor_log2 a d - 52) (- 1074);
               m = (if 0 \<le> e then round_half_even a (d * 2 ^ nat e)
                    else round_half_even (a * 2 ^ nat (- e)) d)
           in (sgn n * m, e))"

definition round_scaled :: "int \<Rightarrow> int \<Rightarrow> float" where
  "round_scaled m e =
     (if 0 \<le> e then round_ratio (m * 2 ^ nat e) 1 else round_ratio m (2 ^ nat (- e)))"

text \<open>\<^verbatim>\<open>a * b\<close> and \<^verbatim>\<open>a + b\<close> on floats.\<close>

definition fmul :: "float \<Rightarrow> float \<Rightarrow> float" where
  "fmul a b = (case a of (m1, e1) \<Rightarrow> case b of (m2, e2) \<Rightarrow> round_scaled (m1 * m2) (e1 + e2))"

definition fadd :: "float \<Rightarrow> float \<Rightarrow> float" where
  "fadd a b =
     (case a of (m1, e1) \<Rightarrow> case b of (m2, e2) \<Rightarrow>
        let e = min e1 e2
        in round_scaled (m1 * 2 ^ nat (e1 - e) + m2 * 2 ^ nat (e2 - e)) e)"

text \<open>
  \<^verbatim>\<open>item.quantity * item.price\<close>: exact for a \<^verbatim>\<open>Decimal\<close> (within the 28 digits
  of the decimal context), the product of floats after the conversion of the integer for
  a \<^verbatim>\<open>float\<close>. \<^verbatim>\<open>float(x)\<close>: the nearest float to a \<^verbatim>\<open>Decimal\<close>, the
  identity on a \<^verbatim>\<open>float\<close>.
\<close>

fun int_times :: "int \<Rightarrow> number \<Rightarrow> number" where
  "int_times q (Decimal c k) = Decimal (q * c) k"
| "int_times q (Float m e) = (case fmul (round_ratio q 1) (m, e) of (m', e') \<Rightarrow> Float m' e')"

fun py_float :: "number \<Rightarrow> float" where
  "py_float (Decimal c k) = round_ratio c (10 ^ k)"
| "py_float (Float m e) = (m, e)"

text \<open>
  The totals loop, as it stands in \<^verbatim>\<open>list_sales_orders\<close> (lines 173--182),
  \<^verbatim>\<open>get_sales_order\<close> and \<^verbatim>\<open>create_sales_order\<close> (lines 96--118): the result is
  \<open>(subtotal, tax, total)\<close>.
\<close>

definition item_total :: "SOItem \<Rightarrow> float" where
  "item_total item = py_float (int_times (soi_quantity item) (soi_price item))"

definition item_tax :: "SOItem \<Rightarrow> float" where
  "item_tax item = fmul (item_total item) (py_float (soi_tax_rate item))"

fun totals_loop :: "SOItem list \<Rightarrow> float \<times> float \<Rightarrow> float \<times> float" where
  "totals_loop [] (subtotal, tax) = (subtotal, tax)"
| "totals_loop (item # rest) (subtotal, tax) =
     totals_loop rest (fadd subtotal (item_total item), fadd tax (item_tax item))"

definition order_totals :: "SOItem list \<Rightarrow> float \<times> float \<times> float" where
  "order_totals items =
     (case totals_loop items ((0, 0), (0, 0)) of
        (subtotal, tax) \<Rightarrow> (subtotal, tax, fadd subtotal tax))"

text \<open>The spec's totals (section 4.4): the exact sums over the lines.\<close>

fun number_val :: "number \<Rightarrow> rat" where
  "number_val (Decimal c k) = of_int c / 10 ^ k"
| "number_val (Float m e) = float_val (m, e)"

definition exact_subtotal :: "SOItem list \<Rightarrow> rat" where
  "exact_subtotal items =
     sum_list (map (\<lambda>i. of_int (soi_quantity i) * number_val (soi_price i)) items)"

definition exact_tax :: "SOItem list \<Rightarrow> rat" where
  "exact_tax items =
     sum_list (map (\<lambda>i. of_int (soi_quantity i) * number_val (soi_price i)
                          * number_val (soi_tax_rate i)) items)"

section \<open>Sequences of calls\<close>

text \<open>
  Requests served one after the other, each with the year it is served in (invoices)
  and the key the database gives its new row: a request that fails leaves the database
  as it was. \<open>accepted_invoiced\<close> and \<open>accepted_shipped\<close> add up, for one order line,
  the quantities of the requests that were accepted.
\<close>

datatype call =
  Invoice_call int int CreateInvoiceRequest
  | Shipment_call int CreateShipmentRequest

definition is_ok :: "'e + 'a \<Rightarrow> bool" where
  "is_ok r = (case r of Inl e \<Rightarrow> False | Inr v \<Rightarrow> True)"

fun perform :: "(string \<Rightarrow> date option) \<Rightarrow> call \<Rightarrow> db \<Rightarrow> bool \<times> db" where
  "perform fromisoformat (Invoice_call current_year invoice_id request) d =
     (case create_invoice fromisoformat current_year invoice_id request d of
        (r, d') \<Rightarrow> (is_ok r, d'))"
| "perform fromisoformat (Shipment_call shipment_id request) d =
     (case create_shipment fromisoformat shipment_id request d of (r, d') \<Rightarrow> (is_ok r, d'))"

fun run_calls :: "(string \<Rightarrow> date option) \<Rightarrow> db \<Rightarrow> call list \<Rightarrow> db" where
  "run_calls fromisoformat d [] = d"
| "run_calls fromisoformat d (c # cs) = run_calls fromisoformat (snd (perform fromisoformat c d)) cs"

definition invoice_quantity :: "int \<Rightarrow> InvoiceItemCreate list \<Rightarrow> int" where
  "invoice_quantity line items =
     sum_list (map iic_quantity (filter (\<lambda>i. iic_soItemId i = line) items))"

definition shipment_quantity :: "int \<Rightarrow> ShipmentItemCreate list \<Rightarrow> int" where
  "shipment_quantity line items =
     sum_list (map sic_quantity (filter (\<lambda>i. sic_soItemId i = line) items))"

fun invoiced_by :: "int \<Rightarrow> call \<Rightarrow> int" where
  "invoiced_by line (Invoice_call current_year invoice_id request) =
     invoice_quantity line (cir_items request)"
| "invoiced_by line (Shipment_call shipment_id request) = 0"

fun shipped_by :: "int \<Rightarrow> call \<Rightarrow> int" where
  "shipped_by line (Invoice_call current_year invoice_id request) = 0"
| "shipped_by line (Shipment_call shipment_id request) =
     shipment_quantity line (csr_items request)"

fun accepted_invoiced :: "(string \<Rightarrow> date option) \<Rightarrow> int \<Rightarrow> db \<Rightarrow> call list \<Rightarrow> int" where
  "accepted_invoiced fromisoformat line d [] = 0"
| "accepted_invoiced fromisoformat line d (c # cs) =
     (if fst (perform fromisoformat c d) then invoiced_by line c else 0)
     + accepted_invoiced fromisoformat line (snd (perform fromisoformat c d)) cs"

fun accepted_shipped :: "(string \<Rightarrow> date option) \<Rightarrow> int \<Rightarrow> db \<Rightarrow> call list \<Rightarrow> int" where
  "accepted_shipped fromisoformat line d [] = 0"
| "accepted_shipped fromisoformat line d (c # cs) =
     (if fst (perform fromisoformat c d) then shipped_by line c else 0)
     + accepted_shipped fromisoformat line (snd (perform fromisoformat c d)) cs"

section \<open>The spec's data model and rules\<close>

text \<open>
  The constraints the schema declares: the primary key of \<^verbatim>\<open>so_items\<close> and the
  foreign keys of the item tables.
\<close>

definition so_item_keys_ok :: "db \<Rightarrow> bool" where
  "so_item_keys_ok d = distinct (map soi_id (so_items d))"

definition item_refs_ok :: "db \<Rightarrow> bool" where
  "item_refs_ok d =
     (list_all (\<lambda>r. ii_invoice_id r \<in> set (map inv_id (invoices d))) (invoice_items d) \<and>
      list_all (\<lambda>r. si_shipment_id r \<in> set (map shp_id (shipments d))) (shipment_items d))"

text \<open>
  The status rule in the spec's words (section 4.3), over the pairs (consumed, ordered)
  of an order's lines, and the two enumerations of the code read as that status.
  \<open>derive_status_at_least\<close> is the rule with ``consumed is at least ordered'' for
  ``consumed equals ordered'' and without the case of the order that has no lines.
\<close>

datatype status = Status_none | Status_partial | Status_complete

definition derive_status :: "(int \<times> int) list \<Rightarrow> status" where
  "derive_status lines =
     (if lines = [] then Status_none
      else if list_all (\<lambda>(consumed, ordered). consumed = ordered) lines then Status_complete
      else if list_ex (\<lambda>(consumed, ordered). consumed > 0) lines then Status_partial
      else Status_none)"




definition invoiced_lines :: "db \<Rightarrow> int \<Rightarrow> (int \<times> int) list" where
  "invoiced_lines d order_id =
     map (\<lambda>l. (invoiced_qty d (soi_id l), soi_quantity l)) (order_items d order_id)"

definition shipped_lines :: "db \<Rightarrow> int \<Rightarrow> (int \<times> int) list" where
  "shipped_lines d order_id =
     map (\<lambda>l. (shipped_qty d (soi_id l), soi_quantity l)) (order_items d order_id)"

text \<open>
  A request that reaches its items: its order exists (and the order's identifier is one
  the column can hold), its dates parse, and the row of the invoice or shipment can be
  inserted (the generated number and the key are unused).
\<close>

definition invoice_request_ok ::
  "(string \<Rightarrow> date option) \<Rightarrow> int \<Rightarrow> int \<Rightarrow> CreateInvoiceRequest \<Rightarrow> db \<Rightarrow> bool" where
  "invoice_request_ok fromisoformat current_year invoice_id request d =
     (int32 (cir_salesOrderId request)
      \<and> find (\<lambda>so. so_id so = cir_salesOrderId request) (sales_orders d) \<noteq> None
      \<and> fromisoformat (cir_date request) \<noteq> None
      \<and> fromisoformat (cir_dueDate request) \<noteq> None
      \<and> generate_invoice_number current_year d \<notin> set (map inv_invoice_number (invoices d))
      \<and> invoice_id \<notin> set (map inv_id (invoices d)))"

definition shipment_request_ok ::
  "(string \<Rightarrow> date option) \<Rightarrow> int \<Rightarrow> CreateShipmentRequest \<Rightarrow> db \<Rightarrow> bool" where
  "shipment_request_ok fromisoformat shipment_id request d =
     (int32 (csr_salesOrderId request)
      \<and> find (\<lambda>so. so_id so = csr_salesOrderId request) (sales_orders d) \<noteq> None
      \<and> date_delivered_of fromisoformat (csr_date request) \<noteq> None
      \<and> shipment_id \<notin> set (map shp_id (shipments d)))"

text \<open>
  The allocation rule in the spec's words (section 4.2), for one item of a request:
  the item names a line of the request's order, the quantity fits into what remains of
  the line (\<open>consumed\<close> is what the track has consumed of it so far), and identifier
  and quantity are values the columns can hold. A request passes when each of its items
  passes, with the earlier items of the same request counted as consumed.
\<close>

definition item_passes :: "db \<Rightarrow> int \<Rightarrow> int \<Rightarrow> int \<Rightarrow> int \<Rightarrow> bool" where
  "item_passes d order_id consumed line quantity =
     (case find (\<lambda>i. soi_id i = line) (so_items d) of
        None \<Rightarrow> False
      | Some l \<Rightarrow>
          soi_sales_order_id l = order_id \<and> consumed + quantity \<le> soi_quantity l
          \<and> int32 line \<and> int32 quantity)"

fun invoice_items_pass ::
  "db \<Rightarrow> int \<Rightarrow> InvoiceItemCreate list \<Rightarrow> InvoiceItemCreate list \<Rightarrow> bool" where
  "invoice_items_pass d order_id earlier [] = True"
| "invoice_items_pass d order_id earlier (item_data # later) =
     (item_passes d order_id
        (invoiced_qty d (iic_soItemId item_data)
         + invoice_quantity (iic_soItemId item_data) earlier)
        (iic_soItemId item_data) (iic_quantity item_data)
      \<and> invoice_items_pass d order_id (earlier @ [item_data]) later)"

fun shipment_items_pass ::
  "db \<Rightarrow> int \<Rightarrow> ShipmentItemCreate list \<Rightarrow> ShipmentItemCreate list \<Rightarrow> bool" where
  "shipment_items_pass d order_id earlier [] = True"
| "shipment_items_pass d order_id earlier (item_data # later) =
     (item_passes d order_id
        (shipped_qty d (sic_soItemId item_data)
         + shipment_quantity (sic_soItemId item_data) earlier)
        (sic_soItemId item_data) (sic_quantity item_data)
      \<and> shipment_items_pass d order_id (earlier @ [item_data]) later)"

definition line_item_of :: "InvoiceItemCreate \<Rightarrow> LineItem" where
  "line_item_of item_data = \<lparr>li_quantity = iic_quantity item_data\<rparr>"

section \<open>Example states\<close>

definition empty_db :: db where
  "empty_db = \<lparr>sales_orders = [], so_items = [], invoices = [], invoice_items = [],
                shipments = [], shipment_items = []\<rparr>"

definition order_numbered :: "int \<Rightarrow> string \<Rightarrow> SalesOrder" where
  "order_numbered i number =
     \<lparr>so_id = i, so_order_number = number, so_customer_id = 1, so_sales_person_id = None,
      so_invoice_status = SOInvoiceStatus_not_invoiced,
      so_shipment_status = ShipmentStatus_not_shipped\<rparr>"

text \<open>The orders table once the sequence of 2025 has passed 999.\<close>

definition orders_999_1000 :: db where
  "orders_999_1000 =
     empty_db\<lparr>sales_orders :=
       [order_numbered 1 ''SO-2025-999'', order_numbered 2 ''SO-2025-1000'']\<rparr>"


text \<open>
  One order with one line of ten units and nothing fulfilled yet, the same order
  without lines, a parser of dates that knows one date, and requests against the order.
\<close>

definition order_1 :: SalesOrder where
  "order_1 = order_numbered 1 ''SO-2025-001''"

definition line_1 :: SOItem where
  "line_1 = \<lparr>soi_id = 1, soi_sales_order_id = 1, soi_product_id = 7, soi_quantity = 10,
              soi_tax_rate = Decimal 1000 4, soi_price = Decimal 1000 2\<rparr>"

definition one_line_db :: db where
  "one_line_db = empty_db\<lparr>sales_orders := [order_1], so_items := [line_1]\<rparr>"

text \<open>The same order with a second line, of minus five units.\<close>

definition line_2 :: SOItem where
  "line_2 = \<lparr>soi_id = 2, soi_sales_order_id = 1, soi_product_id = 8, soi_quantity = - 5,
              soi_tax_rate = Decimal 0 4, soi_price = Decimal 1000 2\<rparr>"

definition two_line_db :: db where
  "two_line_db = empty_db\<lparr>sales_orders := [order_1], so_items := [line_1, line_2]\<rparr>"

definition no_line_db :: db where
  "no_line_db = empty_db\<lparr>sales_orders := [order_1]\<rparr>"

definition one_date :: "string \<Rightarrow> date option" where
  "one_date s = (if s = ''2025-01-15'' then Some (2025, 1, 15) else None)"

definition invoice_request :: "InvoiceItemCreate list \<Rightarrow> CreateInvoiceRequest" where
  "invoice_request items =
     \<lparr>cir_salesOrderId = 1, cir_date = ''2025-01-15'', cir_dueDate = ''2025-01-15'',
      cir_notes = None, cir_items = items\<rparr>"

definition shipment_request :: "ShipmentItemCreate list \<Rightarrow> CreateShipmentRequest" where
  "shipment_request items =
     \<lparr>csr_salesOrderId = 1, csr_date = ''2025-01-15'', csr_carrier = ''post'',
      csr_tracker = None, csr_items = items\<rparr>"

text \<open>
  Order lines for the totals: the spec's two lines as the database holds them and as a
  request carries them (0.1 as the float nearest to it), and three lines of one unit at
  0.10 each.
\<close>

definition totals_line :: "int \<Rightarrow> number \<Rightarrow> number \<Rightarrow> SOItem" where
  "totals_line quantity price tax_rate =
     \<lparr>soi_id = 1, soi_sales_order_id = 1, soi_product_id = 1, soi_quantity = quantity,
      soi_tax_rate = tax_rate, soi_price = price\<rparr>"

definition spec_lines :: "SOItem list" where
  "spec_lines =
     [totals_line 2 (Decimal 1000 2) (Decimal 1000 4), totals_line 1 (Decimal 500 2) (Decimal 0 4)]"

definition spec_lines_as_floats :: "SOItem list" where
  "spec_lines_as_floats =
     [totals_line 2 (Float 10 0) (Float 7205759403792794 (- 56)), totals_line 1 (Float 5 0) (Float 0 0)]"

definition three_dimes :: "SOItem list" where
  "three_dimes =
     [totals_line 1 (Decimal 10 2) (Decimal 0 4), totals_line 1 (Decimal 10 2) (Decimal 0 4),
      totals_line 1 (Decimal 10 2) (Decimal 0 4)]"

section \<open>Sequence generator: formatting and parsing\<close>




















lemma str_int_2025: "str_int 2025 = ''2025''"
  by (simp add: str_int_def str_nat.simps digit_char_def)

lemma format_03d_examples:
  "format_03d 1 = ''001''" "format_03d 42 = ''042''"
  "format_03d 999 = ''999''" "format_03d 1000 = ''1000''"
  by (simp_all add: format_03d_def zfill_def str_nat.simps digit_char_def numeral_2_eq_2)

section \<open>Sequence generator: the last number\<close>

lemma of_char_neq:
  "x \<noteq> y \<Longrightarrow> (of_char x :: nat) < of_char y \<or> (of_char y :: nat) < of_char x"
  using of_char_eq_iff[of x y, where ?'a = nat] by linarith

lemma str_le_refl: "str_le a a"
  by (induction a) auto

lemma str_le_total: "str_le a b \<or> str_le b a"
proof (induction a b rule: str_le.induct)
  case (3 x xs y ys)
  then show ?case using of_char_neq[of x y] by (cases "x = y") auto
qed auto


lemma str_le_trans: "str_le a b \<Longrightarrow> str_le b c \<Longrightarrow> str_le a c"
proof (induction a b arbitrary: c rule: str_le.induct)
  case (1 t)
  then show ?case by simp
next
  case (2 x xs)
  then show ?case by simp
next
  case (3 x xs y ys)
  then obtain z zs where c: "c = z # zs" by (cases c) auto
  show ?case
  proof (cases "x = y")
    case True
    with 3 c show ?thesis by (auto split: if_splits)
  next
    case False
    with 3 c show ?thesis using of_char_neq[of x z] by (auto split: if_splits)
  qed
qed

lemma order_by_desc_limit_1_None: "order_by_desc_limit_1 ss = None \<longleftrightarrow> ss = []"
  by (induction ss) (auto split: option.splits)

lemma order_by_desc_limit_1_max:
  "order_by_desc_limit_1 ss = Some l \<Longrightarrow> l \<in> set ss \<and> list_all (\<lambda>m. str_le m l) ss"
proof (induction ss arbitrary: l)
  case Nil
  then show ?case by simp
next
  case (Cons s ss)
  show ?case
  proof (cases "order_by_desc_limit_1 ss")
    case None
    then have "ss = []" by (simp add: order_by_desc_limit_1_None)
    with Cons.prems show ?thesis using str_le_refl by auto
  next
    case (Some t)
    from Cons.IH[OF Some] have t: "t \<in> set ss" "list_all (\<lambda>m. str_le m t) ss" by auto
    show ?thesis
    proof (cases "str_le t s")
      case True
      with Some Cons.prems have l: "l = s" by simp
      have "list_all (\<lambda>m. str_le m s) ss"
        using t(2) True str_le_trans by (auto simp: list_all_iff)
      with l show ?thesis using str_le_refl by auto
    next
      case False
      with Some Cons.prems have l: "l = t" by simp
      from False have "str_le s t" using str_le_total[of s t] by auto
      with l t show ?thesis by auto
    qed
  qed
qed


lemma largest_last_number:
  "last_number pattern numbers = Some l \<Longrightarrow> largest_number pattern numbers l"
  using order_by_desc_limit_1_max[of "filter (like_prefix pattern) numbers" l]
  by (auto simp: last_number_def largest_number_def)










text \<open>
  C5, at the state where 999 and 1000 have been issued for 2025: the generator returns
  1000 again, a number that is already stored, not 1001.
\<close>

lemma last_number_999_1000:
  "last_number ''SO-2025-'' [''SO-2025-999'', ''SO-2025-1000''] = Some ''SO-2025-999''"
  by (simp add: last_number_def like_prefix_def)

lemma new_num_999: "new_num (Some ''SO-2025-999'') = 1000"
  by (simp add: new_num_def py_int_def strip_def is_space_def parse_unsigned_def
      is_digit_def digit_val_def)

theorem generate_order_number_after_1000:
  "generate_order_number 2025 orders_999_1000 = ''SO-2025-1000''
   \<and> ''SO-2025-1000'' \<in> set (map so_order_number (sales_orders orders_999_1000))"
  by (simp add: generate_order_number_def orders_999_1000_def empty_db_def order_numbered_def
      str_int_2025 last_number_999_1000 new_num_999 document_number_def format_03d_examples)

section \<open>Allocation ledger: shared facts\<close>

lemma scalar_or_0_func_sum: "scalar_or_0 (func_sum xs) = sum_list xs"
  by (simp add: scalar_or_0_def func_sum_def)

lemma find_distinct_key:
  "distinct (map f xs) \<Longrightarrow> l \<in> set xs \<Longrightarrow> find (\<lambda>i. f i = f l) xs = Some l"
proof (induction xs)
  case Nil
  then show ?case by simp
next
  case (Cons x xs)
  then show ?case by (auto simp: image_iff)
qed

lemma find_Some_key: "find (\<lambda>x. f x = k) xs = Some y \<Longrightarrow> f y = k \<and> y \<in> set xs"
  by (induction xs) (auto split: if_splits)



section \<open>Allocation ledger: the loops over the items of a request\<close>

lemma invoiced_qty_sum:
  "invoiced_qty d x =
     sum_list (map ii_quantity_invoiced (filter (\<lambda>r. ii_so_item_id r = x) (invoice_items d)))"
  by (simp add: invoiced_qty_def scalar_or_0_func_sum)

lemma invoiced_qty_cong:
  "invoice_items d' = invoice_items d \<Longrightarrow> invoiced_qty d' x = invoiced_qty d x"
  by (simp add: invoiced_qty_sum)

lemma invoiced_qty_append:
  "invoiced_qty (d\<lparr>invoice_items := invoice_items d @ rs\<rparr>) x =
     invoiced_qty d x + sum_list (map ii_quantity_invoiced (filter (\<lambda>r. ii_so_item_id r = x) rs))"
  by (simp add: invoiced_qty_sum)

lemma invoice_quantity_snoc:
  "invoice_quantity x (earlier @ [it]) =
     invoice_quantity x earlier + (if iic_soItemId it = x then iic_quantity it else 0)"
  by (simp add: invoice_quantity_def)

lemma invoice_quantity_new_items:
  "sum_list (map ii_quantity_invoiced
     (filter (\<lambda>r. ii_so_item_id r = x) (map (new_invoice_item k) items))) = invoice_quantity x items"
  by (induction items) (auto simp: invoice_quantity_def new_invoice_item_def)

lemma invoice_item_step_Inr:
  assumes "invoice_item_step invoice_id so item_data d = Inr d'"
  shows "d' = d\<lparr>invoice_items := invoice_items d @ [new_invoice_item invoice_id item_data]\<rparr>"
    and "\<exists>l. find (\<lambda>i. soi_id i = iic_soItemId item_data) (so_items d) = Some l
           \<and> soi_sales_order_id l = so_id so
           \<and> invoiced_qty d (iic_soItemId item_data) + iic_quantity item_data \<le> soi_quantity l"
  using assms
  by (auto simp: invoice_item_step_def new_invoice_item_def split: option.splits if_splits)

lemma invoice_item_step_valid:
  assumes "find (\<lambda>i. soi_id i = iic_soItemId it) (so_items w) = Some l"
    and "soi_sales_order_id l = so_id so" and "int32 (iic_soItemId it)"
  shows "invoice_item_step k so it w =
     (if soi_quantity l < invoiced_qty w (iic_soItemId it) + iic_quantity it
      then Inl (HTTPException 400 (Quantity_exceeds_remaining_for_item (iic_soItemId it)))
      else if \<not> int32 (iic_quantity it) then Inl DataError
      else Inr (w\<lparr>invoice_items := invoice_items w @ [new_invoice_item k it]\<rparr>))"
  using assms by (simp add: invoice_item_step_def new_invoice_item_def)

lemma invoice_item_step_passes:
  "is_ok (invoice_item_step k so it w) =
     item_passes w (so_id so) (invoiced_qty w (iic_soItemId it)) (iic_soItemId it)
       (iic_quantity it)"
  by (auto simp: invoice_item_step_def item_passes_def is_ok_def split: option.splits)

lemma invoice_items_loop_Inr:
  "invoice_items_loop invoice_id so items d = Inr d' \<Longrightarrow>
   d' = d\<lparr>invoice_items := invoice_items d @ map (new_invoice_item invoice_id) items\<rparr>"
proof (induction items arbitrary: d)
  case Nil
  then show ?case by simp
next
  case (Cons it items)
  from Cons.prems obtain d1 where s: "invoice_item_step invoice_id so it d = Inr d1"
    and l: "invoice_items_loop invoice_id so items d1 = Inr d'"
    by (auto split: sum.splits)
  from invoice_item_step_Inr(1)[OF s] Cons.IH[OF l]
  show ?case by simp
qed

lemma invoice_items_loop_append:
  "invoice_items_loop k so (xs @ ys) d =
     (case invoice_items_loop k so xs d of
        Inl e \<Rightarrow> Inl e
      | Inr w \<Rightarrow> invoice_items_loop k so ys w)"
  by (induction xs arbitrary: d) (simp_all split: sum.splits)

lemma invoice_items_pass_append:
  "invoice_items_pass d order_id earlier (xs @ ys) =
     (invoice_items_pass d order_id earlier xs
      \<and> invoice_items_pass d order_id (earlier @ xs) ys)"
  by (induction xs arbitrary: earlier) auto

lemma invoice_items_loop_passes:
  "so_items w = so_items d \<Longrightarrow>
   (\<And>x. invoiced_qty w x = invoiced_qty d x + invoice_quantity x earlier) \<Longrightarrow>
   is_ok (invoice_items_loop k so items w) = invoice_items_pass d (so_id so) earlier items"
proof (induction items arbitrary: w earlier)
  case Nil
  show ?case by (simp add: is_ok_def)
next
  case (Cons it items)
  have p: "is_ok (invoice_item_step k so it w) =
     item_passes d (so_id so)
       (invoiced_qty d (iic_soItemId it) + invoice_quantity (iic_soItemId it) earlier)
       (iic_soItemId it) (iic_quantity it)"
    by (simp add: invoice_item_step_passes Cons.prems(2) item_passes_def Cons.prems(1))
  show ?case
  proof (cases "invoice_item_step k so it w")
    case (Inl e)
    with p show ?thesis by (simp add: is_ok_def)
  next
    case (Inr w1)
    from invoice_item_step_Inr(1)[OF Inr]
    have w1: "w1 = w\<lparr>invoice_items := invoice_items w @ [new_invoice_item k it]\<rparr>" .
    have 1: "so_items w1 = so_items d" using Cons.prems(1) by (simp add: w1)
    have 2: "invoiced_qty w1 x = invoiced_qty d x + invoice_quantity x (earlier @ [it])" for x
      by (simp add: w1 invoiced_qty_append Cons.prems(2) invoice_quantity_snoc
          new_invoice_item_def)
    from Cons.IH[OF 1 2] p Inr show ?thesis by (simp add: is_ok_def)
  qed
qed

lemma invoice_items_loop_at:
  assumes "so_items w = so_items d"
    and "\<And>x. invoiced_qty w x = invoiced_qty d x"
    and "invoice_items_pass d (so_id so) [] earlier"
  shows "\<exists>w1. so_items w1 = so_items d
    \<and> (\<forall>x. invoiced_qty w1 x = invoiced_qty d x + invoice_quantity x earlier)
    \<and> invoice_items_loop k so (earlier @ rest) w = invoice_items_loop k so rest w1"
proof -
  have q: "invoiced_qty w x = invoiced_qty d x + invoice_quantity x []" for x
    by (simp add: assms(2) invoice_quantity_def)
  from invoice_items_loop_passes[OF assms(1) q, of k so earlier] assms(3)
  obtain w1 where l: "invoice_items_loop k so earlier w = Inr w1"
    by (cases "invoice_items_loop k so earlier w") (simp_all add: is_ok_def)
  from invoice_items_loop_Inr[OF l]
  have w1: "w1 = w\<lparr>invoice_items := invoice_items w @ map (new_invoice_item k) earlier\<rparr>" .
  have "so_items w1 = so_items d" using assms(1) by (simp add: w1)
  moreover have "\<forall>x. invoiced_qty w1 x = invoiced_qty d x + invoice_quantity x earlier"
    by (simp add: w1 invoiced_qty_append assms(2) invoice_quantity_new_items)
  moreover have "invoice_items_loop k so (earlier @ rest) w = invoice_items_loop k so rest w1"
    by (simp add: invoice_items_loop_append l)
  ultimately show ?thesis by blast
qed

lemma invoice_items_loop_item:
  assumes "so_items w = so_items d"
    and "\<And>x. invoiced_qty w x = invoiced_qty d x"
    and "invoice_items_pass d (so_id so) [] earlier"
    and "find (\<lambda>i. soi_id i = iic_soItemId it) (so_items d) = Some l"
    and "soi_sales_order_id l = so_id so" and "int32 (iic_soItemId it)"
  shows "soi_quantity l
           < invoiced_qty d (iic_soItemId it) + invoice_quantity (iic_soItemId it) earlier
             + iic_quantity it \<Longrightarrow>
         invoice_items_loop k so (earlier @ it # later) w =
           Inl (HTTPException 400 (Quantity_exceeds_remaining_for_item (iic_soItemId it)))"
    and "invoiced_qty d (iic_soItemId it) + invoice_quantity (iic_soItemId it) earlier
           + iic_quantity it \<le> soi_quantity l \<Longrightarrow> \<not> int32 (iic_quantity it) \<Longrightarrow>
         invoice_items_loop k so (earlier @ it # later) w = Inl DataError"
proof -
  from invoice_items_loop_at[OF assms(1,2,3), of k "it # later"] obtain w1 where
    s: "so_items w1 = so_items d"
    and q: "invoiced_qty w1 (iic_soItemId it) =
              invoiced_qty d (iic_soItemId it) + invoice_quantity (iic_soItemId it) earlier"
    and l: "invoice_items_loop k so (earlier @ it # later) w =
              invoice_items_loop k so (it # later) w1"
    by blast
  from assms(4) s have f: "find (\<lambda>i. soi_id i = iic_soItemId it) (so_items w1) = Some l"
    by simp
  note step = invoice_item_step_valid[OF f assms(5,6), of k, unfolded q]
  show "soi_quantity l
           < invoiced_qty d (iic_soItemId it) + invoice_quantity (iic_soItemId it) earlier
             + iic_quantity it \<Longrightarrow>
         invoice_items_loop k so (earlier @ it # later) w =
           Inl (HTTPException 400 (Quantity_exceeds_remaining_for_item (iic_soItemId it)))"
    by (simp add: l step)
  show "invoiced_qty d (iic_soItemId it) + invoice_quantity (iic_soItemId it) earlier
           + iic_quantity it \<le> soi_quantity l \<Longrightarrow> \<not> int32 (iic_quantity it) \<Longrightarrow>
         invoice_items_loop k so (earlier @ it # later) w = Inl DataError"
    by (simp add: l step)
qed

lemma invoice_items_loop_line:
  "invoice_items_loop invoice_id so items d = Inr d' \<Longrightarrow> so_item_keys_ok d \<Longrightarrow>
   m \<in> set (so_items d) \<Longrightarrow> invoiced_qty d (soi_id m) \<le> soi_quantity m \<Longrightarrow>
   invoiced_qty d' (soi_id m) \<le> soi_quantity m"
proof (induction items arbitrary: d)
  case Nil
  then show ?case by simp
next
  case (Cons it items)
  from Cons.prems(1) obtain d1 where s: "invoice_item_step invoice_id so it d = Inr d1"
    and l: "invoice_items_loop invoice_id so items d1 = Inr d'"
    by (auto split: sum.splits)
  from invoice_item_step_Inr[OF s] obtain f where
    d1: "d1 = d\<lparr>invoice_items := invoice_items d @ [new_invoice_item invoice_id it]\<rparr>"
    and f: "find (\<lambda>i. soi_id i = iic_soItemId it) (so_items d) = Some f"
    and c: "invoiced_qty d (iic_soItemId it) + iic_quantity it \<le> soi_quantity f"
    by auto
  have "invoiced_qty d1 (soi_id m) \<le> soi_quantity m"
  proof (cases "soi_id m = iic_soItemId it")
    case True
    from find_distinct_key[of soi_id "so_items d" m] Cons.prems(2,3) True f
    have "m = f" by (simp add: so_item_keys_ok_def)
    with c True show ?thesis by (simp add: d1 invoiced_qty_append new_invoice_item_def)
  next
    case False
    with Cons.prems(4) show ?thesis by (simp add: d1 invoiced_qty_append new_invoice_item_def)
  qed
  moreover have "so_item_keys_ok d1" "m \<in> set (so_items d1)"
    using Cons.prems(2,3) by (simp_all add: d1 so_item_keys_ok_def)
  ultimately show ?case using Cons.IH[OF l] by simp
qed

lemma invoice_flags_eq:
  "invoice_flags d ls (f, p) =
     (f \<and> list_all (\<lambda>l. soi_quantity l \<le> invoiced_qty d (soi_id l)) ls,
      p \<or> list_ex (\<lambda>l. 0 < invoiced_qty d (soi_id l)) ls)"
  by (induction ls arbitrary: f p) (auto simp: Let_def)

lemma shipped_qty_sum:
  "shipped_qty d x =
     sum_list (map si_quantity_shipped (filter (\<lambda>r. si_so_item_id r = x) (shipment_items d)))"
  by (simp add: shipped_qty_def scalar_or_0_func_sum)

lemma shipped_qty_cong:
  "shipment_items d' = shipment_items d \<Longrightarrow> shipped_qty d' x = shipped_qty d x"
  by (simp add: shipped_qty_sum)

lemma shipped_qty_append:
  "shipped_qty (d\<lparr>shipment_items := shipment_items d @ rs\<rparr>) x =
     shipped_qty d x + sum_list (map si_quantity_shipped (filter (\<lambda>r. si_so_item_id r = x) rs))"
  by (simp add: shipped_qty_sum)

lemma shipment_quantity_snoc:
  "shipment_quantity x (earlier @ [it]) =
     shipment_quantity x earlier + (if sic_soItemId it = x then sic_quantity it else 0)"
  by (simp add: shipment_quantity_def)

lemma shipment_quantity_new_items:
  "sum_list (map si_quantity_shipped
     (filter (\<lambda>r. si_so_item_id r = x) (map (new_shipment_item k) items))) = shipment_quantity x items"
  by (induction items) (auto simp: shipment_quantity_def new_shipment_item_def)

lemma shipment_item_step_Inr:
  assumes "shipment_item_step shipment_id so item_data d = Inr d'"
  shows "d' = d\<lparr>shipment_items := shipment_items d @ [new_shipment_item shipment_id item_data]\<rparr>"
    and "\<exists>l. find (\<lambda>i. soi_id i = sic_soItemId item_data) (so_items d) = Some l
           \<and> soi_sales_order_id l = so_id so
           \<and> shipped_qty d (sic_soItemId item_data) + sic_quantity item_data \<le> soi_quantity l"
  using assms
  by (auto simp: shipment_item_step_def new_shipment_item_def split: option.splits if_splits)

lemma shipment_item_step_valid:
  assumes "find (\<lambda>i. soi_id i = sic_soItemId it) (so_items w) = Some l"
    and "soi_sales_order_id l = so_id so" and "int32 (sic_soItemId it)"
  shows "shipment_item_step k so it w =
     (if soi_quantity l < shipped_qty w (sic_soItemId it) + sic_quantity it
      then Inl (HTTPException 400 (Quantity_exceeds_remaining_for_item (sic_soItemId it)))
      else if \<not> int32 (sic_quantity it) then Inl DataError
      else Inr (w\<lparr>shipment_items := shipment_items w @ [new_shipment_item k it]\<rparr>))"
  using assms by (simp add: shipment_item_step_def new_shipment_item_def)

lemma shipment_item_step_passes:
  "is_ok (shipment_item_step k so it w) =
     item_passes w (so_id so) (shipped_qty w (sic_soItemId it)) (sic_soItemId it)
       (sic_quantity it)"
  by (auto simp: shipment_item_step_def item_passes_def is_ok_def split: option.splits)

lemma shipment_items_loop_Inr:
  "shipment_items_loop shipment_id so items d = Inr d' \<Longrightarrow>
   d' = d\<lparr>shipment_items := shipment_items d @ map (new_shipment_item shipment_id) items\<rparr>"
proof (induction items arbitrary: d)
  case Nil
  then show ?case by simp
next
  case (Cons it items)
  from Cons.prems obtain d1 where s: "shipment_item_step shipment_id so it d = Inr d1"
    and l: "shipment_items_loop shipment_id so items d1 = Inr d'"
    by (auto split: sum.splits)
  from shipment_item_step_Inr(1)[OF s] Cons.IH[OF l]
  show ?case by simp
qed

lemma shipment_items_loop_append:
  "shipment_items_loop k so (xs @ ys) d =
     (case shipment_items_loop k so xs d of
        Inl e \<Rightarrow> Inl e
      | Inr w \<Rightarrow> shipment_items_loop k so ys w)"
  by (induction xs arbitrary: d) (simp_all split: sum.splits)

lemma shipment_items_pass_append:
  "shipment_items_pass d order_id earlier (xs @ ys) =
     (shipment_items_pass d order_id earlier xs
      \<and> shipment_items_pass d order_id (earlier @ xs) ys)"
  by (induction xs arbitrary: earlier) auto

lemma shipment_items_loop_passes:
  "so_items w = so_items d \<Longrightarrow>
   (\<And>x. shipped_qty w x = shipped_qty d x + shipment_quantity x earlier) \<Longrightarrow>
   is_ok (shipment_items_loop k so items w) = shipment_items_pass d (so_id so) earlier items"
proof (induction items arbitrary: w earlier)
  case Nil
  show ?case by (simp add: is_ok_def)
next
  case (Cons it items)
  have p: "is_ok (shipment_item_step k so it w) =
     item_passes d (so_id so)
       (shipped_qty d (sic_soItemId it) + shipment_quantity (sic_soItemId it) earlier)
       (sic_soItemId it) (sic_quantity it)"
    by (simp add: shipment_item_step_passes Cons.prems(2) item_passes_def Cons.prems(1))
  show ?case
  proof (cases "shipment_item_step k so it w")
    case (Inl e)
    with p show ?thesis by (simp add: is_ok_def)
  next
    case (Inr w1)
    from shipment_item_step_Inr(1)[OF Inr]
    have w1: "w1 = w\<lparr>shipment_items := shipment_items w @ [new_shipment_item k it]\<rparr>" .
    have 1: "so_items w1 = so_items d" using Cons.prems(1) by (simp add: w1)
    have 2: "shipped_qty w1 x = shipped_qty d x + shipment_quantity x (earlier @ [it])" for x
      by (simp add: w1 shipped_qty_append Cons.prems(2) shipment_quantity_snoc
          new_shipment_item_def)
    from Cons.IH[OF 1 2] p Inr show ?thesis by (simp add: is_ok_def)
  qed
qed

lemma shipment_items_loop_at:
  assumes "so_items w = so_items d"
    and "\<And>x. shipped_qty w x = shipped_qty d x"
    and "shipment_items_pass d (so_id so) [] earlier"
  shows "\<exists>w1. so_items w1 = so_items d
    \<and> (\<forall>x. shipped_qty w1 x = shipped_qty d x + shipment_quantity x earlier)
    \<and> shipment_items_loop k so (earlier @ rest) w = shipment_items_loop k so rest w1"
proof -
  have q: "shipped_qty w x = shipped_qty d x + shipment_quantity x []" for x
    by (simp add: assms(2) shipment_quantity_def)
  from shipment_items_loop_passes[OF assms(1) q, of k so earlier] assms(3)
  obtain w1 where l: "shipment_items_loop k so earlier w = Inr w1"
    by (cases "shipment_items_loop k so earlier w") (simp_all add: is_ok_def)
  from shipment_items_loop_Inr[OF l]
  have w1: "w1 = w\<lparr>shipment_items := shipment_items w @ map (new_shipment_item k) earlier\<rparr>" .
  have "so_items w1 = so_items d" using assms(1) by (simp add: w1)
  moreover have "\<forall>x. shipped_qty w1 x = shipped_qty d x + shipment_quantity x earlier"
    by (simp add: w1 shipped_qty_append assms(2) shipment_quantity_new_items)
  moreover have "shipment_items_loop k so (earlier @ rest) w = shipment_items_loop k so rest w1"
    by (simp add: shipment_items_loop_append l)
  ultimately show ?thesis by blast
qed

lemma shipment_items_loop_item:
  assumes "so_items w = so_items d"
    and "\<And>x. shipped_qty w x = shipped_qty d x"
    and "shipment_items_pass d (so_id so) [] earlier"
    and "find (\<lambda>i. soi_id i = sic_soItemId it) (so_items d) = Some l"
    and "soi_sales_order_id l = so_id so" and "int32 (sic_soItemId it)"
  shows "soi_quantity l
           < shipped_qty d (sic_soItemId it) + shipment_quantity (sic_soItemId it) earlier
             + sic_quantity it \<Longrightarrow>
         shipment_items_loop k so (earlier @ it # later) w =
           Inl (HTTPException 400 (Quantity_exceeds_remaining_for_item (sic_soItemId it)))"
    and "shipped_qty d (sic_soItemId it) + shipment_quantity (sic_soItemId it) earlier
           + sic_quantity it \<le> soi_quantity l \<Longrightarrow> \<not> int32 (sic_quantity it) \<Longrightarrow>
         shipment_items_loop k so (earlier @ it # later) w = Inl DataError"
proof -
  from shipment_items_loop_at[OF assms(1,2,3), of k "it # later"] obtain w1 where
    s: "so_items w1 = so_items d"
    and q: "shipped_qty w1 (sic_soItemId it) =
              shipped_qty d (sic_soItemId it) + shipment_quantity (sic_soItemId it) earlier"
    and l: "shipment_items_loop k so (earlier @ it # later) w =
              shipment_items_loop k so (it # later) w1"
    by blast
  from assms(4) s have f: "find (\<lambda>i. soi_id i = sic_soItemId it) (so_items w1) = Some l"
    by simp
  note step = shipment_item_step_valid[OF f assms(5,6), of k, unfolded q]
  show "soi_quantity l
           < shipped_qty d (sic_soItemId it) + shipment_quantity (sic_soItemId it) earlier
             + sic_quantity it \<Longrightarrow>
         shipment_items_loop k so (earlier @ it # later) w =
           Inl (HTTPException 400 (Quantity_exceeds_remaining_for_item (sic_soItemId it)))"
    by (simp add: l step)
  show "shipped_qty d (sic_soItemId it) + shipment_quantity (sic_soItemId it) earlier
           + sic_quantity it \<le> soi_quantity l \<Longrightarrow> \<not> int32 (sic_quantity it) \<Longrightarrow>
         shipment_items_loop k so (earlier @ it # later) w = Inl DataError"
    by (simp add: l step)
qed

lemma shipment_items_loop_line:
  "shipment_items_loop shipment_id so items d = Inr d' \<Longrightarrow> so_item_keys_ok d \<Longrightarrow>
   m \<in> set (so_items d) \<Longrightarrow> shipped_qty d (soi_id m) \<le> soi_quantity m \<Longrightarrow>
   shipped_qty d' (soi_id m) \<le> soi_quantity m"
proof (induction items arbitrary: d)
  case Nil
  then show ?case by simp
next
  case (Cons it items)
  from Cons.prems(1) obtain d1 where s: "shipment_item_step shipment_id so it d = Inr d1"
    and l: "shipment_items_loop shipment_id so items d1 = Inr d'"
    by (auto split: sum.splits)
  from shipment_item_step_Inr[OF s] obtain f where
    d1: "d1 = d\<lparr>shipment_items := shipment_items d @ [new_shipment_item shipment_id it]\<rparr>"
    and f: "find (\<lambda>i. soi_id i = sic_soItemId it) (so_items d) = Some f"
    and c: "shipped_qty d (sic_soItemId it) + sic_quantity it \<le> soi_quantity f"
    by auto
  have "shipped_qty d1 (soi_id m) \<le> soi_quantity m"
  proof (cases "soi_id m = sic_soItemId it")
    case True
    from find_distinct_key[of soi_id "so_items d" m] Cons.prems(2,3) True f
    have "m = f" by (simp add: so_item_keys_ok_def)
    with c True show ?thesis by (simp add: d1 shipped_qty_append new_shipment_item_def)
  next
    case False
    with Cons.prems(4) show ?thesis by (simp add: d1 shipped_qty_append new_shipment_item_def)
  qed
  moreover have "so_item_keys_ok d1" "m \<in> set (so_items d1)"
    using Cons.prems(2,3) by (simp_all add: d1 so_item_keys_ok_def)
  ultimately show ?case using Cons.IH[OF l] by simp
qed

lemma shipment_flags_eq:
  "shipment_flags d ls (f, p) =
     (f \<and> list_all (\<lambda>l. soi_quantity l \<le> shipped_qty d (soi_id l)) ls,
      p \<or> list_ex (\<lambda>l. 0 < shipped_qty d (soi_id l)) ls)"
  by (induction ls arbitrary: f p) (auto simp: Let_def)

section \<open>Allocation ledger: invoices\<close>

lemma find_set_invoice_status:
  "find (\<lambda>so. so_id so = k) (sales_orders (set_invoice_status k st d)) =
     map_option (\<lambda>so. so\<lparr>so_invoice_status := st\<rparr>) (find (\<lambda>so. so_id so = k) (sales_orders d))"
proof -
  have "find (\<lambda>so. so_id so = k)
          (map (\<lambda>so. if so_id so = k then so\<lparr>so_invoice_status := st\<rparr> else so) xs) =
        map_option (\<lambda>so. so\<lparr>so_invoice_status := st\<rparr>) (find (\<lambda>so. so_id so = k) xs)" for xs
    by (induction xs) auto
  then show ?thesis by (simp add: set_invoice_status_def)
qed

lemma set_invoice_status_frame:
  "so_items (set_invoice_status k st d) = so_items d"
  "invoices (set_invoice_status k st d) = invoices d"
  "invoice_items (set_invoice_status k st d) = invoice_items d"
  "shipments (set_invoice_status k st d) = shipments d"
  "shipment_items (set_invoice_status k st d) = shipment_items d"
  by (simp_all add: set_invoice_status_def)

lemma create_invoice_transaction_Inr:
  assumes "create_invoice_transaction p y k request d = Inr d'"
  shows "\<exists>so date' due d2.
      find (\<lambda>so. so_id so = cir_salesOrderId request) (sales_orders d) = Some so
    \<and> p (cir_date request) = Some date' \<and> p (cir_dueDate request) = Some due
    \<and> generate_invoice_number y d \<notin> set (map inv_invoice_number (invoices d))
    \<and> k \<notin> set (map inv_id (invoices d))
    \<and> invoice_items_loop k so (cir_items request)
         (d\<lparr>invoices := invoices d @ [new_invoice k y request d so date' due]\<rparr>) = Inr d2
    \<and> d' = set_invoice_status (so_id so)
             (invoice_status_of (invoice_flags d2 (order_items d (so_id so)) (True, False))) d2"
  using assms
  by (auto simp: create_invoice_transaction_def Let_def new_invoice_def
      split: option.splits if_splits sum.splits)

lemma create_invoice_transaction_ok:
  assumes "invoice_request_ok p y k request d"
  shows "\<exists>so date' due.
      so_id so = cir_salesOrderId request
    \<and> create_invoice_transaction p y k request d =
       (case invoice_items_loop k so (cir_items request)
               (d\<lparr>invoices := invoices d @ [new_invoice k y request d so date' due]\<rparr>) of
          Inl e \<Rightarrow> Inl e
        | Inr d2 \<Rightarrow>
            Inr (set_invoice_status (so_id so)
                   (invoice_status_of (invoice_flags d2 (order_items d (so_id so)) (True, False)))
                   d2))"
proof -
  from assms obtain so date' due where
    h: "int32 (cir_salesOrderId request)"
      "find (\<lambda>so. so_id so = cir_salesOrderId request) (sales_orders d) = Some so"
      "p (cir_date request) = Some date'" "p (cir_dueDate request) = Some due"
      "generate_invoice_number y d \<notin> set (map inv_invoice_number (invoices d))"
      "k \<notin> set (map inv_id (invoices d))"
    by (auto simp: invoice_request_ok_def)
  from find_Some_key[OF h(2)] have id: "so_id so = cir_salesOrderId request" by simp
  have "create_invoice_transaction p y k request d =
       (case invoice_items_loop k so (cir_items request)
               (d\<lparr>invoices := invoices d @ [new_invoice k y request d so date' due]\<rparr>) of
          Inl e \<Rightarrow> Inl e
        | Inr d2 \<Rightarrow>
            Inr (set_invoice_status (so_id so)
                   (invoice_status_of (invoice_flags d2 (order_items d (so_id so)) (True, False)))
                   d2))"
    using h by (simp add: create_invoice_transaction_def Let_def new_invoice_def)
  with id show ?thesis by blast
qed

lemma create_invoice_transaction_effect:
  assumes "create_invoice_transaction p y k request d = Inr d'"
  shows "invoice_items d' = invoice_items d @ map (new_invoice_item k) (cir_items request)"
    and "so_items d' = so_items d"
    and "shipments d' = shipments d" and "shipment_items d' = shipment_items d"
    and "\<exists>i. invoices d' = invoices d @ [i] \<and> inv_id i = k
           \<and> inv_invoice_number i = generate_invoice_number y d"
    and "k \<notin> set (map inv_id (invoices d))"
proof -
  from create_invoice_transaction_Inr[OF assms] obtain so date' due d2 where
    k: "k \<notin> set (map inv_id (invoices d))"
    and l: "invoice_items_loop k so (cir_items request)
         (d\<lparr>invoices := invoices d @ [new_invoice k y request d so date' due]\<rparr>) = Inr d2"
    and d': "d' = set_invoice_status (so_id so)
             (invoice_status_of (invoice_flags d2 (order_items d (so_id so)) (True, False))) d2"
    by blast
  note d2 = invoice_items_loop_Inr[OF l]
  show "k \<notin> set (map inv_id (invoices d))" by (rule k)
  show "invoice_items d' = invoice_items d @ map (new_invoice_item k) (cir_items request)"
    by (simp add: d' set_invoice_status_frame d2)
  show "so_items d' = so_items d" by (simp add: d' set_invoice_status_frame d2)
  show "shipments d' = shipments d" by (simp add: d' set_invoice_status_frame d2)
  show "shipment_items d' = shipment_items d" by (simp add: d' set_invoice_status_frame d2)
  show "\<exists>i. invoices d' = invoices d @ [i] \<and> inv_id i = k
           \<and> inv_invoice_number i = generate_invoice_number y d"
    by (simp add: d' set_invoice_status_frame d2 new_invoice_def)
qed

lemma create_invoice_transaction_qty:
  assumes "create_invoice_transaction p y k request d = Inr d'"
  shows "invoiced_qty d' x = invoiced_qty d x + invoice_quantity x (cir_items request)"
    and "shipped_qty d' x = shipped_qty d x"
  using create_invoice_transaction_effect(1,4)[OF assms]
  by (simp_all add: invoiced_qty_sum shipped_qty_sum invoice_quantity_new_items)

lemma create_invoice_transaction_line:
  assumes "create_invoice_transaction p y k request d = Inr d'"
    and "so_item_keys_ok d" and "m \<in> set (so_items d)"
    and "invoiced_qty d (soi_id m) \<le> soi_quantity m"
  shows "invoiced_qty d' (soi_id m) \<le> soi_quantity m"
proof -
  from create_invoice_transaction_Inr[OF assms(1)] obtain so date' due d2 where
    l: "invoice_items_loop k so (cir_items request)
         (d\<lparr>invoices := invoices d @ [new_invoice k y request d so date' due]\<rparr>) = Inr d2"
    and d': "d' = set_invoice_status (so_id so)
             (invoice_status_of (invoice_flags d2 (order_items d (so_id so)) (True, False))) d2"
    by blast
  let ?d1 = "d\<lparr>invoices := invoices d @ [new_invoice k y request d so date' due]\<rparr>"
  have "so_item_keys_ok ?d1" "m \<in> set (so_items ?d1)"
    "invoiced_qty ?d1 (soi_id m) \<le> soi_quantity m"
    using assms(2,3,4) by (simp_all add: so_item_keys_ok_def invoiced_qty_sum)
  from invoice_items_loop_line[OF l this] show ?thesis
    by (simp add: d' invoiced_qty_sum set_invoice_status_frame)
qed

lemma create_invoice_transaction_status:
  assumes "create_invoice_transaction p y k request d = Inr d'"
  shows "\<exists>so. find (\<lambda>so. so_id so = cir_salesOrderId request) (sales_orders d') = Some so
    \<and> so_invoice_status so =
        invoice_status_of
          (list_all (\<lambda>l. soi_quantity l \<le> invoiced_qty d' (soi_id l))
             (order_items d' (cir_salesOrderId request)),
           list_ex (\<lambda>l. 0 < invoiced_qty d' (soi_id l))
             (order_items d' (cir_salesOrderId request)))"
proof -
  from create_invoice_transaction_Inr[OF assms(1)] obtain so date' due d2 where
    f: "find (\<lambda>so. so_id so = cir_salesOrderId request) (sales_orders d) = Some so"
    and l: "invoice_items_loop k so (cir_items request)
         (d\<lparr>invoices := invoices d @ [new_invoice k y request d so date' due]\<rparr>) = Inr d2"
    and d': "d' = set_invoice_status (so_id so)
             (invoice_status_of (invoice_flags d2 (order_items d (so_id so)) (True, False))) d2"
    by blast
  note d2 = invoice_items_loop_Inr[OF l]
  from find_Some_key[OF f] have id: "so_id so = cir_salesOrderId request" by simp
  have so2: "sales_orders d2 = sales_orders d" "so_items d2 = so_items d" by (simp_all add: d2)
  have q: "invoiced_qty (set_invoice_status a st d2) x = invoiced_qty d2 x" for a st x
    by (rule invoiced_qty_cong) (simp add: set_invoice_status_frame)
  show ?thesis
    using f
    by (simp add: d' find_set_invoice_status so2 id invoice_flags_eq q order_items_def
        set_invoice_status_frame)
qed



lemma invoice_status_no_lines:
  assumes "create_invoice_transaction p y k request d = Inr d'"
    and "order_items d (cir_salesOrderId request) = []"
  shows "\<exists>so. find (\<lambda>so. so_id so = cir_salesOrderId request) (sales_orders d') = Some so
    \<and> so_invoice_status so = SOInvoiceStatus_invoiced"
proof -
  have items: "so_items d' = so_items d"
    by (rule create_invoice_transaction_effect(2)[OF assms(1)])
  with assms(2) have "order_items d' (cir_salesOrderId request) = []"
    by (simp add: order_items_def)
  with create_invoice_transaction_status[OF assms(1)] show ?thesis
    by (simp add: invoice_status_of_def)
qed

lemma create_invoice_Inr:
  "create_invoice p y k request d = (Inr r, d') \<longleftrightarrow>
     (create_invoice_transaction p y k request d = Inr d' \<and> r = invoice_response d' k)"
  by (auto simp: create_invoice_def split: sum.splits)

lemma create_invoice_Inl:
  "create_invoice p y k request d = (Inl e, d') \<longleftrightarrow>
     (\<exists>x. create_invoice_transaction p y k request d = Inl x
        \<and> e = Failed_to_create_invoice x \<and> d' = d)"
  by (auto simp: create_invoice_def split: sum.splits)

lemma create_invoice_is_ok:
  assumes "invoice_request_ok p y k request d"
  shows "is_ok (fst (create_invoice p y k request d)) =
     invoice_items_pass d (cir_salesOrderId request) [] (cir_items request)"
proof -
  from create_invoice_transaction_ok[OF assms] obtain so date' due where
    id: "so_id so = cir_salesOrderId request"
    and t: "create_invoice_transaction p y k request d =
       (case invoice_items_loop k so (cir_items request)
               (d\<lparr>invoices := invoices d @ [new_invoice k y request d so date' due]\<rparr>) of
          Inl e \<Rightarrow> Inl e
        | Inr d2 \<Rightarrow>
            Inr (set_invoice_status (so_id so)
                   (invoice_status_of (invoice_flags d2 (order_items d (so_id so)) (True, False)))
                   d2))"
    by blast
  let ?d1 = "d\<lparr>invoices := invoices d @ [new_invoice k y request d so date' due]\<rparr>"
  have 1: "so_items ?d1 = so_items d" by simp
  have 2: "invoiced_qty ?d1 x = invoiced_qty d x + invoice_quantity x []" for x
    by (simp add: invoiced_qty_sum invoice_quantity_def)
  from invoice_items_loop_passes[OF 1 2, of k so "cir_items request"]
  show ?thesis
    by (cases "invoice_items_loop k so (cir_items request) ?d1")
      (simp_all add: create_invoice_def t is_ok_def id)
qed

lemma create_invoice_item:
  assumes "invoice_request_ok p y k request d"
    and "cir_items request = earlier @ it # later"
    and "invoice_items_pass d (cir_salesOrderId request) [] earlier"
    and "find (\<lambda>i. soi_id i = iic_soItemId it) (so_items d) = Some l"
    and "soi_sales_order_id l = cir_salesOrderId request" and "int32 (iic_soItemId it)"
  shows "soi_quantity l
           < invoiced_qty d (iic_soItemId it) + invoice_quantity (iic_soItemId it) earlier
             + iic_quantity it \<Longrightarrow>
         create_invoice p y k request d =
           (Inl (Failed_to_create_invoice
              (HTTPException 400 (Quantity_exceeds_remaining_for_item (iic_soItemId it)))), d)"
    and "invoiced_qty d (iic_soItemId it) + invoice_quantity (iic_soItemId it) earlier
           + iic_quantity it \<le> soi_quantity l \<Longrightarrow> \<not> int32 (iic_quantity it) \<Longrightarrow>
         create_invoice p y k request d = (Inl (Failed_to_create_invoice DataError), d)"
proof -
  from create_invoice_transaction_ok[OF assms(1)] obtain so date' due where
    id: "so_id so = cir_salesOrderId request"
    and t: "create_invoice_transaction p y k request d =
       (case invoice_items_loop k so (cir_items request)
               (d\<lparr>invoices := invoices d @ [new_invoice k y request d so date' due]\<rparr>) of
          Inl e \<Rightarrow> Inl e
        | Inr d2 \<Rightarrow>
            Inr (set_invoice_status (so_id so)
                   (invoice_status_of (invoice_flags d2 (order_items d (so_id so)) (True, False)))
                   d2))"
    by blast
  let ?d1 = "d\<lparr>invoices := invoices d @ [new_invoice k y request d so date' due]\<rparr>"
  have 1: "so_items ?d1 = so_items d" by simp
  have 2: "invoiced_qty ?d1 x = invoiced_qty d x" for x by (simp add: invoiced_qty_sum)
  note loop = invoice_items_loop_item[OF 1 2 assms(3)[folded id] assms(4) assms(5)[folded id]
      assms(6), of k later]
  show "soi_quantity l
           < invoiced_qty d (iic_soItemId it) + invoice_quantity (iic_soItemId it) earlier
             + iic_quantity it \<Longrightarrow>
         create_invoice p y k request d =
           (Inl (Failed_to_create_invoice
              (HTTPException 400 (Quantity_exceeds_remaining_for_item (iic_soItemId it)))), d)"
    by (simp add: create_invoice_def t assms(2) loop(1))
  show "invoiced_qty d (iic_soItemId it) + invoice_quantity (iic_soItemId it) earlier
           + iic_quantity it \<le> soi_quantity l \<Longrightarrow> \<not> int32 (iic_quantity it) \<Longrightarrow>
         create_invoice p y k request d = (Inl (Failed_to_create_invoice DataError), d)"
    by (simp add: create_invoice_def t assms(2) loop(2))
qed

lemma invoice_response_of_transaction:
  assumes "create_invoice_transaction p y k request d = Inr d'"
  shows "is_id (invoice_response d' k) = k"
    and "item_refs_ok d \<Longrightarrow>
           is_items (invoice_response d' k) = mset (map line_item_of (cir_items request))"
proof -
  show "is_id (invoice_response d' k) = k" by (simp add: invoice_response_def)
  assume refs: "item_refs_ok d"
  have k: "k \<notin> set (map inv_id (invoices d))"
    by (rule create_invoice_transaction_effect(6)[OF assms])
  have "ii_invoice_id r \<noteq> k" if "r \<in> set (invoice_items d)" for r
  proof
    assume "ii_invoice_id r = k"
    moreover from refs that have "ii_invoice_id r \<in> set (map inv_id (invoices d))"
      by (simp add: item_refs_ok_def list_all_iff)
    ultimately show False using k by simp
  qed
  then have old: "filter (\<lambda>r. ii_invoice_id r = k) (invoice_items d) = []"
    by (simp add: filter_empty_conv)
  have new: "filter (\<lambda>r. ii_invoice_id r = k) (map (new_invoice_item k) its) =
      map (new_invoice_item k) its" for its
    by (induction its) (simp_all add: new_invoice_item_def)
  have m: "map (\<lambda>inv_item. \<lparr>li_quantity = ii_quantity_invoiced inv_item\<rparr>)
      (map (new_invoice_item k) its) = map line_item_of its" for its
    by (simp add: line_item_of_def new_invoice_item_def)
  show "is_items (invoice_response d' k) = mset (map line_item_of (cir_items request))"
    by (simp only: invoice_response_def create_invoice_transaction_effect(1)[OF assms]
        filter_append old new append_Nil m InvoiceSchema.simps)
qed

section \<open>Allocation ledger: shipments\<close>

lemma find_set_shipment_status:
  "find (\<lambda>so. so_id so = k) (sales_orders (set_shipment_status k st d)) =
     map_option (\<lambda>so. so\<lparr>so_shipment_status := st\<rparr>) (find (\<lambda>so. so_id so = k) (sales_orders d))"
proof -
  have "find (\<lambda>so. so_id so = k)
          (map (\<lambda>so. if so_id so = k then so\<lparr>so_shipment_status := st\<rparr> else so) xs) =
        map_option (\<lambda>so. so\<lparr>so_shipment_status := st\<rparr>) (find (\<lambda>so. so_id so = k) xs)" for xs
    by (induction xs) auto
  then show ?thesis by (simp add: set_shipment_status_def)
qed

lemma set_shipment_status_frame:
  "so_items (set_shipment_status k st d) = so_items d"
  "invoices (set_shipment_status k st d) = invoices d"
  "invoice_items (set_shipment_status k st d) = invoice_items d"
  "shipments (set_shipment_status k st d) = shipments d"
  "shipment_items (set_shipment_status k st d) = shipment_items d"
  by (simp_all add: set_shipment_status_def)

lemma create_shipment_transaction_Inr:
  assumes "create_shipment_transaction p k request d = Inr d'"
  shows "\<exists>so delivered d2.
      find (\<lambda>so. so_id so = csr_salesOrderId request) (sales_orders d) = Some so
    \<and> date_delivered_of p (csr_date request) = Some delivered
    \<and> k \<notin> set (map shp_id (shipments d))
    \<and> shipment_items_loop k so (csr_items request)
         (d\<lparr>shipments := shipments d @ [new_shipment k request delivered]\<rparr>) = Inr d2
    \<and> d' = set_shipment_status (so_id so)
             (shipment_status_of (shipment_flags d2 (order_items d (so_id so)) (True, False))) d2"
  using assms
  by (auto simp: create_shipment_transaction_def Let_def new_shipment_def
      split: option.splits if_splits sum.splits)

lemma create_shipment_transaction_ok:
  assumes "shipment_request_ok p k request d"
  shows "\<exists>so delivered.
      so_id so = csr_salesOrderId request
    \<and> create_shipment_transaction p k request d =
       (case shipment_items_loop k so (csr_items request)
               (d\<lparr>shipments := shipments d @ [new_shipment k request delivered]\<rparr>) of
          Inl e \<Rightarrow> Inl e
        | Inr d2 \<Rightarrow>
            Inr (set_shipment_status (so_id so)
                   (shipment_status_of (shipment_flags d2 (order_items d (so_id so)) (True, False)))
                   d2))"
proof -
  from assms obtain so delivered where
    h: "int32 (csr_salesOrderId request)"
      "find (\<lambda>so. so_id so = csr_salesOrderId request) (sales_orders d) = Some so"
      "date_delivered_of p (csr_date request) = Some delivered"
      "k \<notin> set (map shp_id (shipments d))"
    by (auto simp: shipment_request_ok_def)
  from find_Some_key[OF h(2)] have id: "so_id so = csr_salesOrderId request" by simp
  have "create_shipment_transaction p k request d =
       (case shipment_items_loop k so (csr_items request)
               (d\<lparr>shipments := shipments d @ [new_shipment k request delivered]\<rparr>) of
          Inl e \<Rightarrow> Inl e
        | Inr d2 \<Rightarrow>
            Inr (set_shipment_status (so_id so)
                   (shipment_status_of (shipment_flags d2 (order_items d (so_id so)) (True, False)))
                   d2))"
    using h by (simp add: create_shipment_transaction_def Let_def new_shipment_def)
  with id show ?thesis by blast
qed

lemma create_shipment_transaction_effect:
  assumes "create_shipment_transaction p k request d = Inr d'"
  shows "shipment_items d' = shipment_items d @ map (new_shipment_item k) (csr_items request)"
    and "so_items d' = so_items d"
    and "invoices d' = invoices d" and "invoice_items d' = invoice_items d"
    and "\<exists>i. shipments d' = shipments d @ [i] \<and> shp_id i = k"
    and "k \<notin> set (map shp_id (shipments d))"
proof -
  from create_shipment_transaction_Inr[OF assms] obtain so delivered d2 where
    k: "k \<notin> set (map shp_id (shipments d))"
    and l: "shipment_items_loop k so (csr_items request)
         (d\<lparr>shipments := shipments d @ [new_shipment k request delivered]\<rparr>) = Inr d2"
    and d': "d' = set_shipment_status (so_id so)
             (shipment_status_of (shipment_flags d2 (order_items d (so_id so)) (True, False))) d2"
    by blast
  note d2 = shipment_items_loop_Inr[OF l]
  show "k \<notin> set (map shp_id (shipments d))" by (rule k)
  show "shipment_items d' = shipment_items d @ map (new_shipment_item k) (csr_items request)"
    by (simp add: d' set_shipment_status_frame d2)
  show "so_items d' = so_items d" by (simp add: d' set_shipment_status_frame d2)
  show "invoices d' = invoices d" by (simp add: d' set_shipment_status_frame d2)
  show "invoice_items d' = invoice_items d" by (simp add: d' set_shipment_status_frame d2)
  show "\<exists>i. shipments d' = shipments d @ [i] \<and> shp_id i = k"
    by (simp add: d' set_shipment_status_frame d2 new_shipment_def)
qed

lemma create_shipment_transaction_qty:
  assumes "create_shipment_transaction p k request d = Inr d'"
  shows "shipped_qty d' x = shipped_qty d x + shipment_quantity x (csr_items request)"
    and "invoiced_qty d' x = invoiced_qty d x"
  using create_shipment_transaction_effect(1,4)[OF assms]
  by (simp_all add: invoiced_qty_sum shipped_qty_sum shipment_quantity_new_items)

lemma create_shipment_transaction_line:
  assumes "create_shipment_transaction p k request d = Inr d'"
    and "so_item_keys_ok d" and "m \<in> set (so_items d)"
    and "shipped_qty d (soi_id m) \<le> soi_quantity m"
  shows "shipped_qty d' (soi_id m) \<le> soi_quantity m"
proof -
  from create_shipment_transaction_Inr[OF assms(1)] obtain so delivered d2 where
    l: "shipment_items_loop k so (csr_items request)
         (d\<lparr>shipments := shipments d @ [new_shipment k request delivered]\<rparr>) = Inr d2"
    and d': "d' = set_shipment_status (so_id so)
             (shipment_status_of (shipment_flags d2 (order_items d (so_id so)) (True, False))) d2"
    by blast
  let ?d1 = "d\<lparr>shipments := shipments d @ [new_shipment k request delivered]\<rparr>"
  have "so_item_keys_ok ?d1" "m \<in> set (so_items ?d1)"
    "shipped_qty ?d1 (soi_id m) \<le> soi_quantity m"
    using assms(2,3,4) by (simp_all add: so_item_keys_ok_def shipped_qty_sum)
  from shipment_items_loop_line[OF l this] show ?thesis
    by (simp add: d' shipped_qty_sum set_shipment_status_frame)
qed

lemma create_shipment_transaction_status:
  assumes "create_shipment_transaction p k request d = Inr d'"
  shows "\<exists>so. find (\<lambda>so. so_id so = csr_salesOrderId request) (sales_orders d') = Some so
    \<and> so_shipment_status so =
        shipment_status_of
          (list_all (\<lambda>l. soi_quantity l \<le> shipped_qty d' (soi_id l))
             (order_items d' (csr_salesOrderId request)),
           list_ex (\<lambda>l. 0 < shipped_qty d' (soi_id l))
             (order_items d' (csr_salesOrderId request)))"
proof -
  from create_shipment_transaction_Inr[OF assms(1)] obtain so delivered d2 where
    f: "find (\<lambda>so. so_id so = csr_salesOrderId request) (sales_orders d) = Some so"
    and l: "shipment_items_loop k so (csr_items request)
         (d\<lparr>shipments := shipments d @ [new_shipment k request delivered]\<rparr>) = Inr d2"
    and d': "d' = set_shipment_status (so_id so)
             (shipment_status_of (shipment_flags d2 (order_items d (so_id so)) (True, False))) d2"
    by blast
  note d2 = shipment_items_loop_Inr[OF l]
  from find_Some_key[OF f] have id: "so_id so = csr_salesOrderId request" by simp
  have so2: "sales_orders d2 = sales_orders d" "so_items d2 = so_items d" by (simp_all add: d2)
  have q: "shipped_qty (set_shipment_status a st d2) x = shipped_qty d2 x" for a st x
    by (rule shipped_qty_cong) (simp add: set_shipment_status_frame)
  show ?thesis
    using f
    by (simp add: d' find_set_shipment_status so2 id shipment_flags_eq q order_items_def
        set_shipment_status_frame)
qed



lemma shipment_status_no_lines:
  assumes "create_shipment_transaction p k request d = Inr d'"
    and "order_items d (csr_salesOrderId request) = []"
  shows "\<exists>so. find (\<lambda>so. so_id so = csr_salesOrderId request) (sales_orders d') = Some so
    \<and> so_shipment_status so = ShipmentStatus_shipped"
proof -
  have items: "so_items d' = so_items d"
    by (rule create_shipment_transaction_effect(2)[OF assms(1)])
  with assms(2) have "order_items d' (csr_salesOrderId request) = []"
    by (simp add: order_items_def)
  with create_shipment_transaction_status[OF assms(1)] show ?thesis
    by (simp add: shipment_status_of_def)
qed

lemma create_shipment_Inr:
  "create_shipment p k request d = (Inr m, d') \<longleftrightarrow>
     create_shipment_transaction p k request d = Inr d'"
  by (cases m) (auto simp: create_shipment_def split: sum.splits)

lemma create_shipment_Inl:
  "create_shipment p k request d = (Inl e, d') \<longleftrightarrow>
     (\<exists>x. create_shipment_transaction p k request d = Inl x
        \<and> e = Failed_to_create_shipment x \<and> d' = d)"
  by (auto simp: create_shipment_def split: sum.splits)

lemma create_shipment_is_ok:
  assumes "shipment_request_ok p k request d"
  shows "is_ok (fst (create_shipment p k request d)) =
     shipment_items_pass d (csr_salesOrderId request) [] (csr_items request)"
proof -
  from create_shipment_transaction_ok[OF assms] obtain so delivered where
    id: "so_id so = csr_salesOrderId request"
    and t: "create_shipment_transaction p k request d =
       (case shipment_items_loop k so (csr_items request)
               (d\<lparr>shipments := shipments d @ [new_shipment k request delivered]\<rparr>) of
          Inl e \<Rightarrow> Inl e
        | Inr d2 \<Rightarrow>
            Inr (set_shipment_status (so_id so)
                   (shipment_status_of (shipment_flags d2 (order_items d (so_id so)) (True, False)))
                   d2))"
    by blast
  let ?d1 = "d\<lparr>shipments := shipments d @ [new_shipment k request delivered]\<rparr>"
  have 1: "so_items ?d1 = so_items d" by simp
  have 2: "shipped_qty ?d1 x = shipped_qty d x + shipment_quantity x []" for x
    by (simp add: shipped_qty_sum shipment_quantity_def)
  from shipment_items_loop_passes[OF 1 2, of k so "csr_items request"]
  show ?thesis
    by (cases "shipment_items_loop k so (csr_items request) ?d1")
      (simp_all add: create_shipment_def t is_ok_def id)
qed

lemma create_shipment_item:
  assumes "shipment_request_ok p k request d"
    and "csr_items request = earlier @ it # later"
    and "shipment_items_pass d (csr_salesOrderId request) [] earlier"
    and "find (\<lambda>i. soi_id i = sic_soItemId it) (so_items d) = Some l"
    and "soi_sales_order_id l = csr_salesOrderId request" and "int32 (sic_soItemId it)"
  shows "soi_quantity l
           < shipped_qty d (sic_soItemId it) + shipment_quantity (sic_soItemId it) earlier
             + sic_quantity it \<Longrightarrow>
         create_shipment p k request d =
           (Inl (Failed_to_create_shipment
              (HTTPException 400 (Quantity_exceeds_remaining_for_item (sic_soItemId it)))), d)"
    and "shipped_qty d (sic_soItemId it) + shipment_quantity (sic_soItemId it) earlier
           + sic_quantity it \<le> soi_quantity l \<Longrightarrow> \<not> int32 (sic_quantity it) \<Longrightarrow>
         create_shipment p k request d = (Inl (Failed_to_create_shipment DataError), d)"
proof -
  from create_shipment_transaction_ok[OF assms(1)] obtain so delivered where
    id: "so_id so = csr_salesOrderId request"
    and t: "create_shipment_transaction p k request d =
       (case shipment_items_loop k so (csr_items request)
               (d\<lparr>shipments := shipments d @ [new_shipment k request delivered]\<rparr>) of
          Inl e \<Rightarrow> Inl e
        | Inr d2 \<Rightarrow>
            Inr (set_shipment_status (so_id so)
                   (shipment_status_of (shipment_flags d2 (order_items d (so_id so)) (True, False)))
                   d2))"
    by blast
  let ?d1 = "d\<lparr>shipments := shipments d @ [new_shipment k request delivered]\<rparr>"
  have 1: "so_items ?d1 = so_items d" by simp
  have 2: "shipped_qty ?d1 x = shipped_qty d x" for x by (simp add: shipped_qty_sum)
  note loop = shipment_items_loop_item[OF 1 2 assms(3)[folded id] assms(4) assms(5)[folded id]
      assms(6), of k later]
  show "soi_quantity l
           < shipped_qty d (sic_soItemId it) + shipment_quantity (sic_soItemId it) earlier
             + sic_quantity it \<Longrightarrow>
         create_shipment p k request d =
           (Inl (Failed_to_create_shipment
              (HTTPException 400 (Quantity_exceeds_remaining_for_item (sic_soItemId it)))), d)"
    by (simp add: create_shipment_def t assms(2) loop(1))
  show "shipped_qty d (sic_soItemId it) + shipment_quantity (sic_soItemId it) earlier
           + sic_quantity it \<le> soi_quantity l \<Longrightarrow> \<not> int32 (sic_quantity it) \<Longrightarrow>
         create_shipment p k request d = (Inl (Failed_to_create_shipment DataError), d)"
    by (simp add: create_shipment_def t assms(2) loop(2))
qed

section \<open>Requests that are accepted\<close>

lemma create_invoice_accepted:
  assumes "invoice_request_ok p y k request d"
    and "invoice_items_pass d (cir_salesOrderId request) [] (cir_items request)"
  shows "\<exists>d'. create_invoice_transaction p y k request d = Inr d'
    \<and> create_invoice p y k request d = (Inr (invoice_response d' k), d')"
proof -
  from create_invoice_is_ok[OF assms(1)] assms(2)
  have "is_ok (fst (create_invoice p y k request d))" by simp
  then show ?thesis
    by (cases "create_invoice_transaction p y k request d")
      (simp_all add: create_invoice_def is_ok_def)
qed

lemma create_shipment_accepted:
  assumes "shipment_request_ok p k request d"
    and "shipment_items_pass d (csr_salesOrderId request) [] (csr_items request)"
  shows "\<exists>d'. create_shipment_transaction p k request d = Inr d'
    \<and> create_shipment p k request d = (Inr Shipment_created_successfully, d')"
proof -
  from create_shipment_is_ok[OF assms(1)] assms(2)
  have "is_ok (fst (create_shipment p k request d))" by simp
  then show ?thesis
    by (cases "create_shipment_transaction p k request d")
      (simp_all add: create_shipment_def is_ok_def)
qed

section \<open>Evaluation at the example states\<close>

lemma generate_invoice_number_first:
  "invoices d = [] \<Longrightarrow> generate_invoice_number 2025 d = ''INV-2025-001''"
  by (simp add: generate_invoice_number_def last_number_def new_num_def document_number_def
      str_int_2025 format_03d_examples)

lemma one_line_db_simps:
  "sales_orders one_line_db = [order_1]" "so_items one_line_db = [line_1]"
  "invoices one_line_db = []" "invoice_items one_line_db = []"
  "shipments one_line_db = []" "shipment_items one_line_db = []"
  by (simp_all add: one_line_db_def empty_db_def)

lemma two_line_db_simps:
  "sales_orders two_line_db = [order_1]" "so_items two_line_db = [line_1, line_2]"
  "invoices two_line_db = []" "invoice_items two_line_db = []"
  "shipments two_line_db = []" "shipment_items two_line_db = []"
  by (simp_all add: two_line_db_def empty_db_def)

lemma no_line_db_simps:
  "sales_orders no_line_db = [order_1]" "so_items no_line_db = []"
  "invoices no_line_db = []" "invoice_items no_line_db = []"
  "shipments no_line_db = []" "shipment_items no_line_db = []"
  by (simp_all add: no_line_db_def empty_db_def)

lemma order_1_simps:
  "so_id order_1 = 1" "so_customer_id order_1 = 1" "so_sales_person_id order_1 = None"
  by (simp_all add: order_1_def order_numbered_def)

lemma line_simps:
  "soi_id line_1 = 1" "soi_sales_order_id line_1 = 1" "soi_quantity line_1 = 10"
  "soi_id line_2 = 2" "soi_sales_order_id line_2 = 1" "soi_quantity line_2 = - 5"
  by (simp_all add: line_1_def line_2_def)

lemma invoice_request_simps:
  "cir_salesOrderId (invoice_request its) = 1" "cir_date (invoice_request its) = ''2025-01-15''"
  "cir_dueDate (invoice_request its) = ''2025-01-15''" "cir_items (invoice_request its) = its"
  "cir_notes (invoice_request its) = None"
  by (simp_all add: invoice_request_def)

lemma shipment_request_simps:
  "csr_salesOrderId (shipment_request its) = 1" "csr_date (shipment_request its) = ''2025-01-15''"
  "csr_items (shipment_request its) = its"
  by (simp_all add: shipment_request_def)

lemma one_date_simp: "one_date ''2025-01-15'' = Some (2025, 1, 15)"
  "date_delivered_of one_date ''2025-01-15'' = Some (Some (2025, 1, 15))"
  by (simp_all add: one_date_def date_delivered_of_def)

lemmas example_simps =
  one_line_db_simps two_line_db_simps no_line_db_simps order_1_simps line_simps
  invoice_request_simps shipment_request_simps one_date_simp generate_invoice_number_first

lemma example_requests_ok:
  "invoice_request_ok one_date 2025 k (invoice_request its) one_line_db"
  "invoice_request_ok one_date 2025 k (invoice_request its) two_line_db"
  "invoice_request_ok one_date 2025 k (invoice_request its) no_line_db"
  "shipment_request_ok one_date k (shipment_request sits) one_line_db"
  "shipment_request_ok one_date k (shipment_request sits) no_line_db"
  by (simp_all add: invoice_request_ok_def shipment_request_ok_def example_simps int32_def)

lemma example_quantities:
  "invoiced_qty one_line_db x = 0" "shipped_qty one_line_db x = 0"
  "invoiced_qty two_line_db x = 0" "shipped_qty two_line_db x = 0"
  by (simp_all add: invoiced_qty_sum shipped_qty_sum example_simps)

lemma example_order_items:
  "order_items one_line_db 1 = [line_1]" "order_items two_line_db 1 = [line_1, line_2]"
  "order_items no_line_db 1 = []"
  by (simp_all add: order_items_def example_simps)

lemma example_keys:
  "so_item_keys_ok one_line_db" "item_refs_ok one_line_db"
  "line_1 \<in> set (so_items one_line_db)"
  "find (\<lambda>i. soi_id i = 1) (so_items one_line_db) = Some line_1"
  by (simp_all add: so_item_keys_ok_def item_refs_ok_def example_simps)

lemmas example_pass_simps =
  item_passes_def example_simps example_quantities invoice_quantity_def shipment_quantity_def

lemma example_invoice_accepted:
  "q \<le> 10 \<Longrightarrow> int32 q \<Longrightarrow>
   \<exists>d'. create_invoice_transaction one_date 2025 k
           (invoice_request [\<lparr>iic_soItemId = 1, iic_quantity = q\<rparr>]) one_line_db = Inr d'
      \<and> create_invoice one_date 2025 k
           (invoice_request [\<lparr>iic_soItemId = 1, iic_quantity = q\<rparr>]) one_line_db
          = (Inr (invoice_response d' k), d')"
  "q \<le> 10 \<Longrightarrow> int32 q \<Longrightarrow>
   \<exists>d'. create_invoice_transaction one_date 2025 k
           (invoice_request [\<lparr>iic_soItemId = 1, iic_quantity = q\<rparr>]) two_line_db = Inr d'
      \<and> create_invoice one_date 2025 k
           (invoice_request [\<lparr>iic_soItemId = 1, iic_quantity = q\<rparr>]) two_line_db
          = (Inr (invoice_response d' k), d')"
  "\<exists>d'. create_invoice_transaction one_date 2025 k (invoice_request []) no_line_db = Inr d'
      \<and> create_invoice one_date 2025 k (invoice_request []) no_line_db
          = (Inr (invoice_response d' k), d')"
  by (rule create_invoice_accepted[OF example_requests_ok(1)],
      simp add: example_pass_simps int32_def,
      rule create_invoice_accepted[OF example_requests_ok(2)],
      simp add: example_pass_simps int32_def,
      rule create_invoice_accepted[OF example_requests_ok(3)],
      simp add: example_pass_simps)

lemma example_shipment_accepted:
  "q \<le> 10 \<Longrightarrow> int32 q \<Longrightarrow>
   \<exists>d'. create_shipment_transaction one_date k
           (shipment_request [\<lparr>sic_soItemId = 1, sic_quantity = q\<rparr>]) one_line_db = Inr d'
      \<and> create_shipment one_date k
           (shipment_request [\<lparr>sic_soItemId = 1, sic_quantity = q\<rparr>]) one_line_db
          = (Inr Shipment_created_successfully, d')"
  "\<exists>d'. create_shipment_transaction one_date k (shipment_request []) no_line_db = Inr d'
      \<and> create_shipment one_date k (shipment_request []) no_line_db
          = (Inr Shipment_created_successfully, d')"
  by (rule create_shipment_accepted[OF example_requests_ok(4)],
      simp add: example_pass_simps int32_def,
      rule create_shipment_accepted[OF example_requests_ok(5)],
      simp add: example_pass_simps)

section \<open>Status aggregator\<close>




text \<open>
  C4. An order without lines: the fulfillment operation leaves both loops' flag
  \<open>fully_invoiced\<close> / \<open>fully_shipped\<close> at its initial \<open>True\<close> and stores the
  status complete (\<open>invoiced\<close>, \<open>shipped\<close>), where the spec's rule gives none.
\<close>

theorem status_of_order_without_lines:
  "(create_invoice p y k request d = (Inr r, d')
      \<and> order_items d (cir_salesOrderId request) = []
    \<longrightarrow> (\<exists>so. find (\<lambda>so. so_id so = cir_salesOrderId request) (sales_orders d') = Some so
          \<and> so_invoice_status so = SOInvoiceStatus_invoiced)
        \<and> derive_status (invoiced_lines d' (cir_salesOrderId request)) = Status_none)
   \<and> (create_shipment p j srequest d = (Inr m, d'')
      \<and> order_items d (csr_salesOrderId srequest) = []
    \<longrightarrow> (\<exists>so. find (\<lambda>so. so_id so = csr_salesOrderId srequest) (sales_orders d'') = Some so
          \<and> so_shipment_status so = ShipmentStatus_shipped)
        \<and> derive_status (shipped_lines d'' (csr_salesOrderId srequest)) = Status_none)"
proof -
  have 1: "derive_status (invoiced_lines d' (cir_salesOrderId request)) = Status_none"
    if "create_invoice_transaction p y k request d = Inr d'"
      and "order_items d (cir_salesOrderId request) = []"
    using create_invoice_transaction_effect(2)[OF that(1)] that(2)
    by (simp add: derive_status_def invoiced_lines_def order_items_def)
  have 2: "derive_status (shipped_lines d'' (csr_salesOrderId srequest)) = Status_none"
    if "create_shipment_transaction p j srequest d = Inr d''"
      and "order_items d (csr_salesOrderId srequest) = []"
    using create_shipment_transaction_effect(2)[OF that(1)] that(2)
    by (simp add: derive_status_def shipped_lines_def order_items_def)
  show ?thesis
    using invoice_status_no_lines[of p y k request d d'] 1
      shipment_status_no_lines[of p j srequest d d''] 2
    by (auto simp: create_invoice_Inr create_shipment_Inr)
qed

theorem status_of_order_without_lines_witness:
  "map_option so_invoice_status (find (\<lambda>so. so_id so = 1)
      (sales_orders (snd (create_invoice one_date 2025 1 (invoice_request []) no_line_db))))
     = Some SOInvoiceStatus_invoiced
   \<and> map_option so_shipment_status (find (\<lambda>so. so_id so = 1)
      (sales_orders (snd (create_shipment one_date 1 (shipment_request []) no_line_db))))
     = Some ShipmentStatus_shipped
   \<and> order_items no_line_db 1 = []"
proof -
  obtain d' where
    c: "create_invoice one_date 2025 1 (invoice_request []) no_line_db
          = (Inr (invoice_response d' 1), d')"
    using example_invoice_accepted(3)[of 1] by auto
  obtain d'' where
    s: "create_shipment one_date 1 (shipment_request []) no_line_db
          = (Inr Shipment_created_successfully, d'')"
    using example_shipment_accepted(2)[of 1] by auto
  from status_of_order_without_lines
    [of one_date 2025 1 "invoice_request []" no_line_db "invoice_response d' 1" d'
        1 "shipment_request []" Shipment_created_successfully d'']
    c s example_order_items(3)
  show ?thesis by (auto simp: example_simps)
qed

section \<open>Capacity invariant over sequences of calls\<close>

lemma perform_cases:
  obtains (rejected) "perform p c d = (False, d)"
  | (invoiced) y k request d' where "c = Invoice_call y k request"
      "create_invoice_transaction p y k request d = Inr d'" "perform p c d = (True, d')"
  | (shipped) k request d' where "c = Shipment_call k request"
      "create_shipment_transaction p k request d = Inr d'" "perform p c d = (True, d')"
proof (cases c)
  case (Invoice_call y k request)
  show ?thesis
  proof (cases "create_invoice_transaction p y k request d")
    case (Inl e)
    with Invoice_call have "perform p c d = (False, d)"
      by (simp add: create_invoice_def is_ok_def)
    then show ?thesis by (rule rejected)
  next
    case (Inr d')
    with Invoice_call show ?thesis
      by (intro invoiced[of y k request d']) (simp_all add: create_invoice_def is_ok_def)
  qed
next
  case (Shipment_call k request)
  show ?thesis
  proof (cases "create_shipment_transaction p k request d")
    case (Inl e)
    with Shipment_call have "perform p c d = (False, d)"
      by (simp add: create_shipment_def is_ok_def)
    then show ?thesis by (rule rejected)
  next
    case (Inr d')
    with Shipment_call show ?thesis
      by (intro shipped[of k request d']) (simp_all add: create_shipment_def is_ok_def)
  qed
qed

lemma perform_so_items: "so_items (snd (perform p c d)) = so_items d"
proof (cases p c d rule: perform_cases)
  case rejected
  then show ?thesis by simp
next
  case (invoiced y k request d')
  then show ?thesis using create_invoice_transaction_effect(2)[OF invoiced(2)] by simp
next
  case (shipped k request d')
  then show ?thesis using create_shipment_transaction_effect(2)[OF shipped(2)] by simp
qed

lemma perform_invoiced:
  "invoiced_qty (snd (perform p c d)) x =
     invoiced_qty d x + (if fst (perform p c d) then invoiced_by x c else 0)"
proof (cases p c d rule: perform_cases)
  case rejected
  then show ?thesis by simp
next
  case (invoiced y k request d')
  then show ?thesis using create_invoice_transaction_qty(1)[OF invoiced(2), of x] by simp
next
  case (shipped k request d')
  then show ?thesis using create_shipment_transaction_qty(2)[OF shipped(2), of x] by simp
qed

lemma perform_shipped:
  "shipped_qty (snd (perform p c d)) x =
     shipped_qty d x + (if fst (perform p c d) then shipped_by x c else 0)"
proof (cases p c d rule: perform_cases)
  case rejected
  then show ?thesis by simp
next
  case (invoiced y k request d')
  then show ?thesis using create_invoice_transaction_qty(2)[OF invoiced(2), of x] by simp
next
  case (shipped k request d')
  then show ?thesis using create_shipment_transaction_qty(1)[OF shipped(2), of x] by simp
qed

lemma perform_line:
  assumes "so_item_keys_ok d" and "m \<in> set (so_items d)"
  shows "invoiced_qty d (soi_id m) \<le> soi_quantity m \<Longrightarrow>
           invoiced_qty (snd (perform p c d)) (soi_id m) \<le> soi_quantity m"
    and "shipped_qty d (soi_id m) \<le> soi_quantity m \<Longrightarrow>
           shipped_qty (snd (perform p c d)) (soi_id m) \<le> soi_quantity m"
proof -
  assume a: "invoiced_qty d (soi_id m) \<le> soi_quantity m"
  show "invoiced_qty (snd (perform p c d)) (soi_id m) \<le> soi_quantity m"
  proof (cases p c d rule: perform_cases)
    case rejected
    then show ?thesis using a by simp
  next
    case (invoiced y k request d')
    then show ?thesis using create_invoice_transaction_line[OF invoiced(2) assms a] by simp
  next
    case (shipped k request d')
    then show ?thesis using create_shipment_transaction_qty(2)[OF shipped(2), of "soi_id m"] a
      by simp
  qed
next
  assume a: "shipped_qty d (soi_id m) \<le> soi_quantity m"
  show "shipped_qty (snd (perform p c d)) (soi_id m) \<le> soi_quantity m"
  proof (cases p c d rule: perform_cases)
    case rejected
    then show ?thesis using a by simp
  next
    case (invoiced y k request d')
    then show ?thesis using create_invoice_transaction_qty(2)[OF invoiced(2), of "soi_id m"] a
      by simp
  next
    case (shipped k request d')
    then show ?thesis using create_shipment_transaction_line[OF shipped(2) assms a] by simp
  qed
qed

lemma perform_rejected: "\<not> fst (perform p c d) \<Longrightarrow> perform p c d = (False, d)"
  by (cases p c d rule: perform_cases) auto

lemma run_calls_so_items: "so_items (run_calls p d cs) = so_items d"
  by (induction cs arbitrary: d) (simp_all add: perform_so_items)

lemma run_calls_invoiced:
  "invoiced_qty (run_calls p d cs) x = invoiced_qty d x + accepted_invoiced p x d cs"
  by (induction cs arbitrary: d) (simp_all add: perform_invoiced)

lemma run_calls_shipped:
  "shipped_qty (run_calls p d cs) x = shipped_qty d x + accepted_shipped p x d cs"
  by (induction cs arbitrary: d) (simp_all add: perform_shipped)

lemma run_calls_line:
  "so_item_keys_ok d \<Longrightarrow> m \<in> set (so_items d) \<Longrightarrow>
   invoiced_qty d (soi_id m) \<le> soi_quantity m \<Longrightarrow> shipped_qty d (soi_id m) \<le> soi_quantity m \<Longrightarrow>
   invoiced_qty (run_calls p d cs) (soi_id m) \<le> soi_quantity m
   \<and> shipped_qty (run_calls p d cs) (soi_id m) \<le> soi_quantity m"
proof (induction cs arbitrary: d)
  case Nil
  then show ?case by simp
next
  case (Cons c cs)
  let ?d1 = "snd (perform p c d)"
  have "so_item_keys_ok ?d1" "m \<in> set (so_items ?d1)"
    using Cons.prems(1,2) by (simp_all add: so_item_keys_ok_def perform_so_items)
  moreover have "invoiced_qty ?d1 (soi_id m) \<le> soi_quantity m"
    "shipped_qty ?d1 (soi_id m) \<le> soi_quantity m"
    using perform_line[OF Cons.prems(1,2)] Cons.prems(3,4) by simp_all
  ultimately show ?case using Cons.IH[of ?d1] by simp
qed


text \<open>
  C2. For every sequence of requests served one after the other (invoices and shipments
  in any order, each with any items), starting from a state without events on an order
  line of non-negative ordered quantity: per track, the consumed quantity of the line
  is the sum of the quantities of the accepted requests and never exceeds the ordered
  quantity; a request whose quantity for the line would push the sum above it is
  rejected and leaves the database as it was.
\<close>

theorem accepted_quantities_never_exceed_ordered:
  assumes "so_item_keys_ok d" and "l \<in> set (so_items d)" and "0 \<le> soi_quantity l"
    and "filter (\<lambda>r. ii_so_item_id r = soi_id l) (invoice_items d) = []"
    and "filter (\<lambda>r. si_so_item_id r = soi_id l) (shipment_items d) = []"
  shows "invoiced_qty (run_calls p d cs) (soi_id l) = accepted_invoiced p (soi_id l) d cs
    \<and> accepted_invoiced p (soi_id l) d cs \<le> soi_quantity l
    \<and> shipped_qty (run_calls p d cs) (soi_id l) = accepted_shipped p (soi_id l) d cs
    \<and> accepted_shipped p (soi_id l) d cs \<le> soi_quantity l
    \<and> (soi_quantity l < accepted_invoiced p (soi_id l) d cs + invoiced_by (soi_id l) c
         \<longrightarrow> perform p c (run_calls p d cs) = (False, run_calls p d cs))
    \<and> (soi_quantity l < accepted_shipped p (soi_id l) d cs + shipped_by (soi_id l) c
         \<longrightarrow> perform p c (run_calls p d cs) = (False, run_calls p d cs))"
proof -
  let ?s = "run_calls p d cs"
  have i0: "invoiced_qty d (soi_id l) = 0" and s0: "shipped_qty d (soi_id l) = 0"
    using assms(4,5) by (simp_all add: invoiced_qty_sum shipped_qty_sum)
  have i: "invoiced_qty ?s (soi_id l) = accepted_invoiced p (soi_id l) d cs"
    and s: "shipped_qty ?s (soi_id l) = accepted_shipped p (soi_id l) d cs"
    by (simp_all add: run_calls_invoiced run_calls_shipped i0 s0)
  have b: "invoiced_qty ?s (soi_id l) \<le> soi_quantity l \<and> shipped_qty ?s (soi_id l) \<le> soi_quantity l"
    using run_calls_line[OF assms(1,2)] assms(3) i0 s0 by simp
  have k: "so_item_keys_ok ?s" "l \<in> set (so_items ?s)"
    using assms(1,2) by (simp_all add: so_item_keys_ok_def run_calls_so_items)
  have ri: "perform p c ?s = (False, ?s)"
    if "soi_quantity l < accepted_invoiced p (soi_id l) d cs + invoiced_by (soi_id l) c"
  proof (rule perform_rejected, rule notI)
    assume a: "fst (perform p c ?s)"
    from perform_line(1)[OF k, of p c] b
    have "invoiced_qty (snd (perform p c ?s)) (soi_id l) \<le> soi_quantity l" by simp
    with that a show False by (simp add: perform_invoiced i)
  qed
  have rs: "perform p c ?s = (False, ?s)"
    if "soi_quantity l < accepted_shipped p (soi_id l) d cs + shipped_by (soi_id l) c"
  proof (rule perform_rejected, rule notI)
    assume a: "fst (perform p c ?s)"
    from perform_line(2)[OF k, of p c] b
    have "shipped_qty (snd (perform p c ?s)) (soi_id l) \<le> soi_quantity l" by simp
    with that a show False by (simp add: perform_shipped s)
  qed
  from i s b ri rs show ?thesis by simp
qed

theorem accepted_quantities_never_exceed_ordered_witness:
  "accepted_invoiced one_date 1 one_line_db
      [Invoice_call 2025 1 (invoice_request [\<lparr>iic_soItemId = 1, iic_quantity = 4\<rparr>])] = 4
   \<and> perform one_date
        (Invoice_call 2025 2 (invoice_request [\<lparr>iic_soItemId = 1, iic_quantity = 7\<rparr>]))
        (run_calls one_date one_line_db
          [Invoice_call 2025 1 (invoice_request [\<lparr>iic_soItemId = 1, iic_quantity = 4\<rparr>])])
      = (False, run_calls one_date one_line_db
          [Invoice_call 2025 1 (invoice_request [\<lparr>iic_soItemId = 1, iic_quantity = 4\<rparr>])])"
proof -
  let ?c4 = "Invoice_call 2025 1 (invoice_request [\<lparr>iic_soItemId = 1, iic_quantity = 4\<rparr>])"
  let ?c7 = "Invoice_call 2025 2 (invoice_request [\<lparr>iic_soItemId = 1, iic_quantity = 7\<rparr>])"
  obtain d' where "create_invoice_transaction one_date 2025 1
      (invoice_request [\<lparr>iic_soItemId = 1, iic_quantity = 4\<rparr>]) one_line_db = Inr d'"
    using example_invoice_accepted(1)[of 4 1] by (auto simp: int32_def)
  then have a: "accepted_invoiced one_date 1 one_line_db [?c4] = 4"
    by (simp add: create_invoice_def is_ok_def invoice_quantity_def example_simps)
  have h: "so_item_keys_ok one_line_db" "line_1 \<in> set (so_items one_line_db)"
    "0 \<le> soi_quantity line_1"
    "filter (\<lambda>r. ii_so_item_id r = soi_id line_1) (invoice_items one_line_db) = []"
    "filter (\<lambda>r. si_so_item_id r = soi_id line_1) (shipment_items one_line_db) = []"
    by (simp_all add: example_keys example_simps)
  from accepted_quantities_never_exceed_ordered[OF h, of one_date "[?c4]" ?c7] a
  show ?thesis by (simp add: example_simps invoice_quantity_def)
qed

section \<open>Allocation of a request item\<close>

lemma create_invoice_persisted:
  assumes "create_invoice p y k request d = (Inr r, d')"
  shows "invoice_items d' = invoice_items d @ map (new_invoice_item k) (cir_items request)
         \<and> (\<exists>i. invoices d' = invoices d @ [i] \<and> inv_id i = k)
         \<and> is_id r = k
         \<and> (item_refs_ok d \<longrightarrow> is_items r = mset (map line_item_of (cir_items request)))"
proof -
  from assms have t: "create_invoice_transaction p y k request d = Inr d'"
    and r: "r = invoice_response d' k"
    by (simp_all add: create_invoice_Inr)
  from create_invoice_transaction_effect(1,5)[OF t] invoice_response_of_transaction[OF t]
  show ?thesis by (auto simp: r)
qed

lemma create_shipment_persisted:
  assumes "create_shipment p k request d = (Inr m, d')"
  shows "m = Shipment_created_successfully
         \<and> shipment_items d' = shipment_items d @ map (new_shipment_item k) (csr_items request)
         \<and> (\<exists>i. shipments d' = shipments d @ [i] \<and> shp_id i = k)"
proof -
  from assms have t: "create_shipment_transaction p k request d = Inr d'"
    by (simp add: create_shipment_Inr)
  from create_shipment_transaction_effect(1,5)[OF t]
  show ?thesis by (cases m) simp
qed

lemma create_invoice_nonpositive:
  assumes "invoice_request_ok p y k request d"
    and "cir_items request = earlier @ it # later"
    and "invoice_items_pass d (cir_salesOrderId request) [] earlier"
    and "find (\<lambda>i. soi_id i = iic_soItemId it) (so_items d) = Some l"
    and "soi_sales_order_id l = cir_salesOrderId request" and "int32 (iic_soItemId it)"
    and "iic_quantity it \<le> 0"
    and "invoiced_qty d (iic_soItemId it) + invoice_quantity (iic_soItemId it) earlier
           \<le> soi_quantity l"
  shows "int32 (iic_quantity it) \<Longrightarrow>
         invoice_items_pass d (cir_salesOrderId request) (earlier @ [it]) later \<Longrightarrow>
         is_ok (fst (create_invoice p y k request d))
         \<and> invoice_items (snd (create_invoice p y k request d)) =
             invoice_items d @ map (new_invoice_item k) (cir_items request)"
    and "\<not> int32 (iic_quantity it) \<Longrightarrow>
         create_invoice p y k request d = (Inl (Failed_to_create_invoice DataError), d)"
proof -
  from assms(7,8)
  have fits: "invoiced_qty d (iic_soItemId it) + invoice_quantity (iic_soItemId it) earlier
           + iic_quantity it \<le> soi_quantity l" by simp
  show "\<not> int32 (iic_quantity it) \<Longrightarrow>
         create_invoice p y k request d = (Inl (Failed_to_create_invoice DataError), d)"
    by (rule create_invoice_item(2)[OF assms(1-6) fits])
  assume q: "int32 (iic_quantity it)"
    and later: "invoice_items_pass d (cir_salesOrderId request) (earlier @ [it]) later"
  have "item_passes d (cir_salesOrderId request)
          (invoiced_qty d (iic_soItemId it) + invoice_quantity (iic_soItemId it) earlier)
          (iic_soItemId it) (iic_quantity it)"
    using assms(4,5,6) fits q by (simp add: item_passes_def)
  with assms(3) later
  have "invoice_items_pass d (cir_salesOrderId request) [] (cir_items request)"
    by (simp add: assms(2) invoice_items_pass_append)
  from create_invoice_accepted[OF assms(1) this] obtain d' where
    t: "create_invoice_transaction p y k request d = Inr d'"
    and c: "create_invoice p y k request d = (Inr (invoice_response d' k), d')"
    by blast
  from create_invoice_transaction_effect(1)[OF t]
  show "is_ok (fst (create_invoice p y k request d))
         \<and> invoice_items (snd (create_invoice p y k request d)) =
             invoice_items d @ map (new_invoice_item k) (cir_items request)"
    by (simp add: c is_ok_def)
qed

lemma create_shipment_nonpositive:
  assumes "shipment_request_ok p k request d"
    and "csr_items request = earlier @ it # later"
    and "shipment_items_pass d (csr_salesOrderId request) [] earlier"
    and "find (\<lambda>i. soi_id i = sic_soItemId it) (so_items d) = Some l"
    and "soi_sales_order_id l = csr_salesOrderId request" and "int32 (sic_soItemId it)"
    and "sic_quantity it \<le> 0"
    and "shipped_qty d (sic_soItemId it) + shipment_quantity (sic_soItemId it) earlier
           \<le> soi_quantity l"
  shows "int32 (sic_quantity it) \<Longrightarrow>
         shipment_items_pass d (csr_salesOrderId request) (earlier @ [it]) later \<Longrightarrow>
         is_ok (fst (create_shipment p k request d))
         \<and> shipment_items (snd (create_shipment p k request d)) =
             shipment_items d @ map (new_shipment_item k) (csr_items request)"
    and "\<not> int32 (sic_quantity it) \<Longrightarrow>
         create_shipment p k request d = (Inl (Failed_to_create_shipment DataError), d)"
proof -
  from assms(7,8)
  have fits: "shipped_qty d (sic_soItemId it) + shipment_quantity (sic_soItemId it) earlier
           + sic_quantity it \<le> soi_quantity l" by simp
  show "\<not> int32 (sic_quantity it) \<Longrightarrow>
         create_shipment p k request d = (Inl (Failed_to_create_shipment DataError), d)"
    by (rule create_shipment_item(2)[OF assms(1-6) fits])
  assume q: "int32 (sic_quantity it)"
    and later: "shipment_items_pass d (csr_salesOrderId request) (earlier @ [it]) later"
  have "item_passes d (csr_salesOrderId request)
          (shipped_qty d (sic_soItemId it) + shipment_quantity (sic_soItemId it) earlier)
          (sic_soItemId it) (sic_quantity it)"
    using assms(4,5,6) fits q by (simp add: item_passes_def)
  with assms(3) later
  have "shipment_items_pass d (csr_salesOrderId request) [] (csr_items request)"
    by (simp add: assms(2) shipment_items_pass_append)
  from create_shipment_accepted[OF assms(1) this] obtain d' where
    t: "create_shipment_transaction p k request d = Inr d'"
    and c: "create_shipment p k request d = (Inr Shipment_created_successfully, d')"
    by blast
  from create_shipment_transaction_effect(1)[OF t]
  show "is_ok (fst (create_shipment p k request d))
         \<and> shipment_items (snd (create_shipment p k request d)) =
             shipment_items d @ map (new_shipment_item k) (csr_items request)"
    by (simp add: c is_ok_def)
qed

text \<open>
  C1, as the code has it. An item of a request that names a line of the request's order
  passes or fails on \<open>alreadyConsumed + quantity > orderedQuantity\<close>, the events added
  earlier in the same request counted in: failing raises the status-400 error
  \<open>Quantity exceeds remaining\<close>, passing adds one event carrying the quantity to the
  open transaction (a quantity the column cannot hold is refused). This holds for every
  item of a request: a request that reaches its items succeeds exactly when each item
  passes in its turn, and it fails with the capacity error, leaving the database as it
  was, at the first item that exceeds what remains of its line. A request that fails
  persists nothing (no event, document or status change); a request that succeeds
  persists one event per item and the document under its key. \<open>create_invoice\<close>
  returns those events in its response, \<open>create_shipment\<close> returns only its message.
\<close>

theorem allocation_of_request_item:
  "(find (\<lambda>i. soi_id i = iic_soItemId it) (so_items w) = Some l
      \<and> soi_sales_order_id l = so_id so \<and> int32 (iic_soItemId it)
      \<longrightarrow> invoice_item_step k so it w =
           (if soi_quantity l < invoiced_qty w (iic_soItemId it) + iic_quantity it
            then Inl (HTTPException 400 (Quantity_exceeds_remaining_for_item (iic_soItemId it)))
            else if \<not> int32 (iic_quantity it) then Inl DataError
            else Inr (w\<lparr>invoice_items := invoice_items w @ [new_invoice_item k it]\<rparr>)))
   \<and> (invoice_request_ok p y k request d
      \<longrightarrow> is_ok (fst (create_invoice p y k request d)) =
            invoice_items_pass d (cir_salesOrderId request) [] (cir_items request))
   \<and> (invoice_request_ok p y k request d
      \<and> cir_items request = earlier @ it # later
      \<and> invoice_items_pass d (cir_salesOrderId request) [] earlier
      \<and> find (\<lambda>i. soi_id i = iic_soItemId it) (so_items d) = Some l
      \<and> soi_sales_order_id l = cir_salesOrderId request \<and> int32 (iic_soItemId it)
      \<and> soi_quantity l
           < invoiced_qty d (iic_soItemId it) + invoice_quantity (iic_soItemId it) earlier
             + iic_quantity it
      \<longrightarrow> create_invoice p y k request d =
            (Inl (Failed_to_create_invoice (HTTPException 400
               (Quantity_exceeds_remaining_for_item (iic_soItemId it)))), d))
   \<and> (create_invoice p y k request d = (Inl e, d') \<longrightarrow> d' = d)
   \<and> (create_invoice p y k request d = (Inr r, d') \<longrightarrow>
         invoice_items d' = invoice_items d @ map (new_invoice_item k) (cir_items request)
         \<and> (\<exists>i. invoices d' = invoices d @ [i] \<and> inv_id i = k)
         \<and> is_id r = k
         \<and> (item_refs_ok d \<longrightarrow> is_items r = mset (map line_item_of (cir_items request))))
   \<and> (find (\<lambda>i. soi_id i = sic_soItemId sit) (so_items w) = Some l
      \<and> soi_sales_order_id l = so_id so \<and> int32 (sic_soItemId sit)
      \<longrightarrow> shipment_item_step k so sit w =
           (if soi_quantity l < shipped_qty w (sic_soItemId sit) + sic_quantity sit
            then Inl (HTTPException 400 (Quantity_exceeds_remaining_for_item (sic_soItemId sit)))
            else if \<not> int32 (sic_quantity sit) then Inl DataError
            else Inr (w\<lparr>shipment_items := shipment_items w @ [new_shipment_item k sit]\<rparr>)))
   \<and> (shipment_request_ok p k srequest d
      \<longrightarrow> is_ok (fst (create_shipment p k srequest d)) =
            shipment_items_pass d (csr_salesOrderId srequest) [] (csr_items srequest))
   \<and> (shipment_request_ok p k srequest d
      \<and> csr_items srequest = searlier @ sit # slater
      \<and> shipment_items_pass d (csr_salesOrderId srequest) [] searlier
      \<and> find (\<lambda>i. soi_id i = sic_soItemId sit) (so_items d) = Some l
      \<and> soi_sales_order_id l = csr_salesOrderId srequest \<and> int32 (sic_soItemId sit)
      \<and> soi_quantity l
           < shipped_qty d (sic_soItemId sit) + shipment_quantity (sic_soItemId sit) searlier
             + sic_quantity sit
      \<longrightarrow> create_shipment p k srequest d =
            (Inl (Failed_to_create_shipment (HTTPException 400
               (Quantity_exceeds_remaining_for_item (sic_soItemId sit)))), d))
   \<and> (create_shipment p k srequest d = (Inl e, d'') \<longrightarrow> d'' = d)
   \<and> (create_shipment p k srequest d = (Inr m, d'') \<longrightarrow>
         m = Shipment_created_successfully
         \<and> shipment_items d'' = shipment_items d @ map (new_shipment_item k) (csr_items srequest)
         \<and> (\<exists>i. shipments d'' = shipments d @ [i] \<and> shp_id i = k))"
proof -
  have 1: "find (\<lambda>i. soi_id i = iic_soItemId it) (so_items w) = Some l
      \<and> soi_sales_order_id l = so_id so \<and> int32 (iic_soItemId it)
      \<longrightarrow> invoice_item_step k so it w =
           (if soi_quantity l < invoiced_qty w (iic_soItemId it) + iic_quantity it
            then Inl (HTTPException 400 (Quantity_exceeds_remaining_for_item (iic_soItemId it)))
            else if \<not> int32 (iic_quantity it) then Inl DataError
            else Inr (w\<lparr>invoice_items := invoice_items w @ [new_invoice_item k it]\<rparr>))"
    using invoice_item_step_valid[of it w l so k] by blast
  have 2: "invoice_request_ok p y k request d
      \<longrightarrow> is_ok (fst (create_invoice p y k request d)) =
            invoice_items_pass d (cir_salesOrderId request) [] (cir_items request)"
    using create_invoice_is_ok[of p y k request d] by blast
  have 3: "invoice_request_ok p y k request d
      \<and> cir_items request = earlier @ it # later
      \<and> invoice_items_pass d (cir_salesOrderId request) [] earlier
      \<and> find (\<lambda>i. soi_id i = iic_soItemId it) (so_items d) = Some l
      \<and> soi_sales_order_id l = cir_salesOrderId request \<and> int32 (iic_soItemId it)
      \<and> soi_quantity l
           < invoiced_qty d (iic_soItemId it) + invoice_quantity (iic_soItemId it) earlier
             + iic_quantity it
      \<longrightarrow> create_invoice p y k request d =
            (Inl (Failed_to_create_invoice (HTTPException 400
               (Quantity_exceeds_remaining_for_item (iic_soItemId it)))), d)"
    using create_invoice_item(1)[of p y k request d earlier it later l] by blast
  have 4: "create_invoice p y k request d = (Inl e, d') \<longrightarrow> d' = d"
    by (auto simp: create_invoice_Inl)
  have 5: "create_invoice p y k request d = (Inr r, d') \<longrightarrow>
         invoice_items d' = invoice_items d @ map (new_invoice_item k) (cir_items request)
         \<and> (\<exists>i. invoices d' = invoices d @ [i] \<and> inv_id i = k)
         \<and> is_id r = k
         \<and> (item_refs_ok d \<longrightarrow> is_items r = mset (map line_item_of (cir_items request)))"
    using create_invoice_persisted[of p y k request d r d'] by blast
  have 6: "find (\<lambda>i. soi_id i = sic_soItemId sit) (so_items w) = Some l
      \<and> soi_sales_order_id l = so_id so \<and> int32 (sic_soItemId sit)
      \<longrightarrow> shipment_item_step k so sit w =
           (if soi_quantity l < shipped_qty w (sic_soItemId sit) + sic_quantity sit
            then Inl (HTTPException 400 (Quantity_exceeds_remaining_for_item (sic_soItemId sit)))
            else if \<not> int32 (sic_quantity sit) then Inl DataError
            else Inr (w\<lparr>shipment_items := shipment_items w @ [new_shipment_item k sit]\<rparr>))"
    using shipment_item_step_valid[of sit w l so k] by blast
  have 7: "shipment_request_ok p k srequest d
      \<longrightarrow> is_ok (fst (create_shipment p k srequest d)) =
            shipment_items_pass d (csr_salesOrderId srequest) [] (csr_items srequest)"
    using create_shipment_is_ok[of p k srequest d] by blast
  have 8: "shipment_request_ok p k srequest d
      \<and> csr_items srequest = searlier @ sit # slater
      \<and> shipment_items_pass d (csr_salesOrderId srequest) [] searlier
      \<and> find (\<lambda>i. soi_id i = sic_soItemId sit) (so_items d) = Some l
      \<and> soi_sales_order_id l = csr_salesOrderId srequest \<and> int32 (sic_soItemId sit)
      \<and> soi_quantity l
           < shipped_qty d (sic_soItemId sit) + shipment_quantity (sic_soItemId sit) searlier
             + sic_quantity sit
      \<longrightarrow> create_shipment p k srequest d =
            (Inl (Failed_to_create_shipment (HTTPException 400
               (Quantity_exceeds_remaining_for_item (sic_soItemId sit)))), d)"
    using create_shipment_item(1)[of p k srequest d searlier sit slater l] by blast
  have 9: "create_shipment p k srequest d = (Inl e, d'') \<longrightarrow> d'' = d"
    by (auto simp: create_shipment_Inl)
  have 10: "create_shipment p k srequest d = (Inr m, d'') \<longrightarrow>
         m = Shipment_created_successfully
         \<and> shipment_items d'' = shipment_items d @ map (new_shipment_item k) (csr_items srequest)
         \<and> (\<exists>i. shipments d'' = shipments d @ [i] \<and> shp_id i = k)"
    using create_shipment_persisted[of p k srequest d m d''] by blast
  show ?thesis
    by (intro conjI) (rule 1, rule 2, rule 3, rule 4, rule 5, rule 6, rule 7, rule 8, rule 9,
        rule 10)
qed

theorem allocation_of_request_item_witness:
  "create_invoice one_date 2025 1
      (invoice_request [\<lparr>iic_soItemId = 1, iic_quantity = 4\<rparr>,
                        \<lparr>iic_soItemId = 1, iic_quantity = 7\<rparr>]) one_line_db
     = (Inl (Failed_to_create_invoice
          (HTTPException 400 (Quantity_exceeds_remaining_for_item 1))), one_line_db)
   \<and> is_ok (fst (create_shipment one_date 1
        (shipment_request [\<lparr>sic_soItemId = 1, sic_quantity = 4\<rparr>,
                           \<lparr>sic_soItemId = 1, sic_quantity = 6\<rparr>]) one_line_db))"
proof -
  let ?i4 = "\<lparr>iic_soItemId = 1, iic_quantity = 4\<rparr>"
  let ?i7 = "\<lparr>iic_soItemId = 1, iic_quantity = 7\<rparr>"
  let ?s4 = "\<lparr>sic_soItemId = 1, sic_quantity = 4\<rparr>"
  let ?s6 = "\<lparr>sic_soItemId = 1, sic_quantity = 6\<rparr>"
  have a: "invoice_items_pass one_line_db 1 [] [?i4]"
    "shipment_items_pass one_line_db 1 [] [?s4, ?s6]"
    "soi_quantity line_1 < invoiced_qty one_line_db 1 + invoice_quantity 1 [?i4] + 7"
    "int32 1"
    by (simp_all add: example_pass_simps int32_def)
  from allocation_of_request_item
    [where p = one_date and y = 2025 and k = 1 and d = one_line_db and l = line_1
       and request = "invoice_request [?i4, ?i7]" and earlier = "[?i4]" and it = ?i7
       and later = "[]" and srequest = "shipment_request [?s4, ?s6]"]
    a example_requests_ok(1)[of 1 "[?i4, ?i7]"] example_requests_ok(4)[of 1 "[?s4, ?s6]"]
    example_keys(4)
  show ?thesis by (simp add: example_simps)
qed

text \<open>
  C1 as stated fails twice. A shipment of 4 of the 10 units is persisted, yet the
  handler returns only its message, not the event. And in an invoice request for 4 and
  then 7 units of the line, the first item passes its check (0 + 4 does not exceed 10),
  but the request fails on the second and no event of the first is persisted.
\<close>

theorem allocation_persisted_and_returned_counterexample:
  "fst (create_shipment one_date 1
      (shipment_request [\<lparr>sic_soItemId = 1, sic_quantity = 4\<rparr>]) one_line_db)
     = Inr Shipment_created_successfully
   \<and> shipment_items (snd (create_shipment one_date 1
        (shipment_request [\<lparr>sic_soItemId = 1, sic_quantity = 4\<rparr>]) one_line_db))
     = [\<lparr>si_shipment_id = 1, si_so_item_id = 1, si_quantity_shipped = 4\<rparr>]
   \<and> invoiced_qty one_line_db 1 + 4 \<le> soi_quantity line_1
   \<and> create_invoice one_date 2025 1
        (invoice_request [\<lparr>iic_soItemId = 1, iic_quantity = 4\<rparr>,
                          \<lparr>iic_soItemId = 1, iic_quantity = 7\<rparr>]) one_line_db
     = (Inl (Failed_to_create_invoice
          (HTTPException 400 (Quantity_exceeds_remaining_for_item 1))), one_line_db)"
proof -
  let ?i4 = "\<lparr>iic_soItemId = 1, iic_quantity = 4\<rparr>"
  let ?i7 = "\<lparr>iic_soItemId = 1, iic_quantity = 7\<rparr>"
  obtain d' where t: "create_shipment_transaction one_date 1
      (shipment_request [\<lparr>sic_soItemId = 1, sic_quantity = 4\<rparr>]) one_line_db = Inr d'"
    and c: "create_shipment one_date 1
      (shipment_request [\<lparr>sic_soItemId = 1, sic_quantity = 4\<rparr>]) one_line_db
        = (Inr Shipment_created_successfully, d')"
    using example_shipment_accepted(1)[of 4 1] by (auto simp: int32_def)
  from create_shipment_transaction_effect(1)[OF t]
  have 1: "shipment_items d' = [\<lparr>si_shipment_id = 1, si_so_item_id = 1, si_quantity_shipped = 4\<rparr>]"
    by (simp add: example_simps new_shipment_item_def)
  have 2: "invoiced_qty one_line_db 1 + 4 \<le> soi_quantity line_1"
    by (simp add: example_quantities line_simps)
  have a: "invoice_items_pass one_line_db (cir_salesOrderId (invoice_request [?i4, ?i7])) [] [?i4]"
    "cir_items (invoice_request [?i4, ?i7]) = [?i4] @ ?i7 # []"
    "find (\<lambda>i. soi_id i = iic_soItemId ?i7) (so_items one_line_db) = Some line_1"
    "soi_sales_order_id line_1 = cir_salesOrderId (invoice_request [?i4, ?i7])"
    "int32 (iic_soItemId ?i7)"
    "soi_quantity line_1 < invoiced_qty one_line_db (iic_soItemId ?i7)
        + invoice_quantity (iic_soItemId ?i7) [?i4] + iic_quantity ?i7"
    by (simp_all add: example_pass_simps int32_def)
  from create_invoice_item(1)[OF example_requests_ok(1) a(2,1,3,4,5,6), of 1]
  have 3: "create_invoice one_date 2025 1 (invoice_request [?i4, ?i7]) one_line_db
     = (Inl (Failed_to_create_invoice
          (HTTPException 400 (Quantity_exceeds_remaining_for_item 1))), one_line_db)"
    by simp
  show ?thesis by (simp add: c 1 2 3)
qed

text \<open>
  C6, as the code has it. The handlers have no check of the quantity's sign: an item
  with a quantity of zero or less is checked against capacity only, so on a line whose
  consumed quantity is within the ordered quantity it passes, and when the rest of its
  request passes too an event carrying that quantity is recorded. The one quantity of
  zero or less that is refused is one the column cannot hold (below \<open>- 2 ^ 31\<close>): the
  request then fails with the database's error and records nothing.
\<close>

theorem nonpositive_quantity_is_recorded:
  "(find (\<lambda>i. soi_id i = iic_soItemId it) (so_items w) = Some l
      \<and> soi_sales_order_id l = so_id so \<and> int32 (iic_soItemId it)
      \<and> iic_quantity it \<le> 0 \<and> int32 (iic_quantity it)
      \<and> invoiced_qty w (iic_soItemId it) \<le> soi_quantity l
      \<longrightarrow> invoice_item_step k so it w =
            Inr (w\<lparr>invoice_items := invoice_items w @ [new_invoice_item k it]\<rparr>))
   \<and> (invoice_request_ok p y k request d
      \<and> cir_items request = earlier @ it # later
      \<and> invoice_items_pass d (cir_salesOrderId request) [] earlier
      \<and> find (\<lambda>i. soi_id i = iic_soItemId it) (so_items d) = Some l
      \<and> soi_sales_order_id l = cir_salesOrderId request \<and> int32 (iic_soItemId it)
      \<and> iic_quantity it \<le> 0
      \<and> invoiced_qty d (iic_soItemId it) + invoice_quantity (iic_soItemId it) earlier
           \<le> soi_quantity l
      \<longrightarrow> (if int32 (iic_quantity it)
           then invoice_items_pass d (cir_salesOrderId request) (earlier @ [it]) later
                \<longrightarrow> is_ok (fst (create_invoice p y k request d))
                    \<and> invoice_items (snd (create_invoice p y k request d)) =
                        invoice_items d @ map (new_invoice_item k) (cir_items request)
           else create_invoice p y k request d
                  = (Inl (Failed_to_create_invoice DataError), d)))
   \<and> (find (\<lambda>i. soi_id i = sic_soItemId sit) (so_items w) = Some l
      \<and> soi_sales_order_id l = so_id so \<and> int32 (sic_soItemId sit)
      \<and> sic_quantity sit \<le> 0 \<and> int32 (sic_quantity sit)
      \<and> shipped_qty w (sic_soItemId sit) \<le> soi_quantity l
      \<longrightarrow> shipment_item_step k so sit w =
            Inr (w\<lparr>shipment_items := shipment_items w @ [new_shipment_item k sit]\<rparr>))
   \<and> (shipment_request_ok p k srequest d
      \<and> csr_items srequest = searlier @ sit # slater
      \<and> shipment_items_pass d (csr_salesOrderId srequest) [] searlier
      \<and> find (\<lambda>i. soi_id i = sic_soItemId sit) (so_items d) = Some l
      \<and> soi_sales_order_id l = csr_salesOrderId srequest \<and> int32 (sic_soItemId sit)
      \<and> sic_quantity sit \<le> 0
      \<and> shipped_qty d (sic_soItemId sit) + shipment_quantity (sic_soItemId sit) searlier
           \<le> soi_quantity l
      \<longrightarrow> (if int32 (sic_quantity sit)
           then shipment_items_pass d (csr_salesOrderId srequest) (searlier @ [sit]) slater
                \<longrightarrow> is_ok (fst (create_shipment p k srequest d))
                    \<and> shipment_items (snd (create_shipment p k srequest d)) =
                        shipment_items d @ map (new_shipment_item k) (csr_items srequest)
           else create_shipment p k srequest d
                  = (Inl (Failed_to_create_shipment DataError), d)))"
proof -
  have 1: "find (\<lambda>i. soi_id i = iic_soItemId it) (so_items w) = Some l
      \<and> soi_sales_order_id l = so_id so \<and> int32 (iic_soItemId it)
      \<and> iic_quantity it \<le> 0 \<and> int32 (iic_quantity it)
      \<and> invoiced_qty w (iic_soItemId it) \<le> soi_quantity l
      \<longrightarrow> invoice_item_step k so it w =
            Inr (w\<lparr>invoice_items := invoice_items w @ [new_invoice_item k it]\<rparr>)"
    using invoice_item_step_valid[of it w l so k] by auto
  have 2: "invoice_request_ok p y k request d
      \<and> cir_items request = earlier @ it # later
      \<and> invoice_items_pass d (cir_salesOrderId request) [] earlier
      \<and> find (\<lambda>i. soi_id i = iic_soItemId it) (so_items d) = Some l
      \<and> soi_sales_order_id l = cir_salesOrderId request \<and> int32 (iic_soItemId it)
      \<and> iic_quantity it \<le> 0
      \<and> invoiced_qty d (iic_soItemId it) + invoice_quantity (iic_soItemId it) earlier
           \<le> soi_quantity l
      \<longrightarrow> (if int32 (iic_quantity it)
           then invoice_items_pass d (cir_salesOrderId request) (earlier @ [it]) later
                \<longrightarrow> is_ok (fst (create_invoice p y k request d))
                    \<and> invoice_items (snd (create_invoice p y k request d)) =
                        invoice_items d @ map (new_invoice_item k) (cir_items request)
           else create_invoice p y k request d
                  = (Inl (Failed_to_create_invoice DataError), d))"
  proof (intro impI, elim conjE)
    assume h: "invoice_request_ok p y k request d"
      "cir_items request = earlier @ it # later"
      "invoice_items_pass d (cir_salesOrderId request) [] earlier"
      "find (\<lambda>i. soi_id i = iic_soItemId it) (so_items d) = Some l"
      "soi_sales_order_id l = cir_salesOrderId request" "int32 (iic_soItemId it)"
      "iic_quantity it \<le> 0"
      "invoiced_qty d (iic_soItemId it) + invoice_quantity (iic_soItemId it) earlier
           \<le> soi_quantity l"
    from create_invoice_nonpositive[OF h]
    show "if int32 (iic_quantity it)
           then invoice_items_pass d (cir_salesOrderId request) (earlier @ [it]) later
                \<longrightarrow> is_ok (fst (create_invoice p y k request d))
                    \<and> invoice_items (snd (create_invoice p y k request d)) =
                        invoice_items d @ map (new_invoice_item k) (cir_items request)
           else create_invoice p y k request d
                  = (Inl (Failed_to_create_invoice DataError), d)"
      by auto
  qed
  have 3: "find (\<lambda>i. soi_id i = sic_soItemId sit) (so_items w) = Some l
      \<and> soi_sales_order_id l = so_id so \<and> int32 (sic_soItemId sit)
      \<and> sic_quantity sit \<le> 0 \<and> int32 (sic_quantity sit)
      \<and> shipped_qty w (sic_soItemId sit) \<le> soi_quantity l
      \<longrightarrow> shipment_item_step k so sit w =
            Inr (w\<lparr>shipment_items := shipment_items w @ [new_shipment_item k sit]\<rparr>)"
    using shipment_item_step_valid[of sit w l so k] by auto
  have 4: "shipment_request_ok p k srequest d
      \<and> csr_items srequest = searlier @ sit # slater
      \<and> shipment_items_pass d (csr_salesOrderId srequest) [] searlier
      \<and> find (\<lambda>i. soi_id i = sic_soItemId sit) (so_items d) = Some l
      \<and> soi_sales_order_id l = csr_salesOrderId srequest \<and> int32 (sic_soItemId sit)
      \<and> sic_quantity sit \<le> 0
      \<and> shipped_qty d (sic_soItemId sit) + shipment_quantity (sic_soItemId sit) searlier
           \<le> soi_quantity l
      \<longrightarrow> (if int32 (sic_quantity sit)
           then shipment_items_pass d (csr_salesOrderId srequest) (searlier @ [sit]) slater
                \<longrightarrow> is_ok (fst (create_shipment p k srequest d))
                    \<and> shipment_items (snd (create_shipment p k srequest d)) =
                        shipment_items d @ map (new_shipment_item k) (csr_items srequest)
           else create_shipment p k srequest d
                  = (Inl (Failed_to_create_shipment DataError), d))"
  proof (intro impI, elim conjE)
    assume h: "shipment_request_ok p k srequest d"
      "csr_items srequest = searlier @ sit # slater"
      "shipment_items_pass d (csr_salesOrderId srequest) [] searlier"
      "find (\<lambda>i. soi_id i = sic_soItemId sit) (so_items d) = Some l"
      "soi_sales_order_id l = csr_salesOrderId srequest" "int32 (sic_soItemId sit)"
      "sic_quantity sit \<le> 0"
      "shipped_qty d (sic_soItemId sit) + shipment_quantity (sic_soItemId sit) searlier
           \<le> soi_quantity l"
    from create_shipment_nonpositive[OF h]
    show "if int32 (sic_quantity sit)
           then shipment_items_pass d (csr_salesOrderId srequest) (searlier @ [sit]) slater
                \<longrightarrow> is_ok (fst (create_shipment p k srequest d))
                    \<and> shipment_items (snd (create_shipment p k srequest d)) =
                        shipment_items d @ map (new_shipment_item k) (csr_items srequest)
           else create_shipment p k srequest d
                  = (Inl (Failed_to_create_shipment DataError), d)"
      by auto
  qed
  show ?thesis by (intro conjI) (rule 1, rule 2, rule 3, rule 4)
qed

theorem nonpositive_quantity_is_recorded_witness:
  "is_ok (fst (create_invoice one_date 2025 1
      (invoice_request [\<lparr>iic_soItemId = 1, iic_quantity = 0\<rparr>]) one_line_db))
   \<and> invoice_items (snd (create_invoice one_date 2025 1
        (invoice_request [\<lparr>iic_soItemId = 1, iic_quantity = 0\<rparr>]) one_line_db))
     = [\<lparr>ii_invoice_id = 1, ii_so_item_id = 1, ii_quantity_invoiced = 0\<rparr>]
   \<and> create_shipment one_date 1
        (shipment_request [\<lparr>sic_soItemId = 1, sic_quantity = - 3000000000\<rparr>]) one_line_db
     = (Inl (Failed_to_create_shipment DataError), one_line_db)"
proof -
  let ?it = "\<lparr>iic_soItemId = 1, iic_quantity = 0\<rparr>"
  let ?sit = "\<lparr>sic_soItemId = 1, sic_quantity = - 3000000000\<rparr>"
  have a: "int32 1" "int32 0" "\<not> int32 (- 3000000000)" by (simp_all add: int32_def)
  from nonpositive_quantity_is_recorded
    [where p = one_date and y = 2025 and k = 1 and d = one_line_db and l = line_1
       and request = "invoice_request [?it]" and earlier = "[]" and it = ?it and later = "[]"
       and srequest = "shipment_request [?sit]" and searlier = "[]" and sit = ?sit
       and slater = "[]"]
    a example_requests_ok(1)[of 1 "[?it]"] example_requests_ok(4)[of 1 "[?sit]"]
    example_keys(4)
  show ?thesis
    by (simp add: example_simps example_quantities invoice_quantity_def shipment_quantity_def
        new_invoice_item_def)
qed

text \<open>
  C6 as stated fails: an invoice item of \<open>-3\<close> units and a shipment item of 0 units
  are accepted, and their events are recorded.
\<close>

theorem invalid_quantity_counterexample:
  "is_ok (fst (create_invoice one_date 2025 1
      (invoice_request [\<lparr>iic_soItemId = 1, iic_quantity = - 3\<rparr>]) one_line_db))
   \<and> invoice_items (snd (create_invoice one_date 2025 1
        (invoice_request [\<lparr>iic_soItemId = 1, iic_quantity = - 3\<rparr>]) one_line_db))
     = [\<lparr>ii_invoice_id = 1, ii_so_item_id = 1, ii_quantity_invoiced = - 3\<rparr>]
   \<and> is_ok (fst (create_shipment one_date 1
        (shipment_request [\<lparr>sic_soItemId = 1, sic_quantity = 0\<rparr>]) one_line_db))
   \<and> shipment_items (snd (create_shipment one_date 1
        (shipment_request [\<lparr>sic_soItemId = 1, sic_quantity = 0\<rparr>]) one_line_db))
     = [\<lparr>si_shipment_id = 1, si_so_item_id = 1, si_quantity_shipped = 0\<rparr>]"
proof -
  obtain d' where t: "create_invoice_transaction one_date 2025 1
      (invoice_request [\<lparr>iic_soItemId = 1, iic_quantity = - 3\<rparr>]) one_line_db = Inr d'"
    and c: "create_invoice one_date 2025 1
      (invoice_request [\<lparr>iic_soItemId = 1, iic_quantity = - 3\<rparr>]) one_line_db
        = (Inr (invoice_response d' 1), d')"
    using example_invoice_accepted(1)[of "- 3" 1] by (auto simp: int32_def)
  obtain d'' where u: "create_shipment_transaction one_date 1
      (shipment_request [\<lparr>sic_soItemId = 1, sic_quantity = 0\<rparr>]) one_line_db = Inr d''"
    and s: "create_shipment one_date 1
      (shipment_request [\<lparr>sic_soItemId = 1, sic_quantity = 0\<rparr>]) one_line_db
        = (Inr Shipment_created_successfully, d'')"
    using example_shipment_accepted(1)[of 0 1] by (auto simp: int32_def)
  from create_invoice_transaction_effect(1)[OF t] create_shipment_transaction_effect(1)[OF u]
  show ?thesis
    by (simp add: c s is_ok_def example_simps new_invoice_item_def new_shipment_item_def)
qed

section \<open>Order totals\<close>

lemma bit_length_numeral:
  "bit_length 0 = 0" "bit_length 1 = 1" "bit_length (Suc 0) = 1"
  "bit_length (numeral (Num.Bit0 k)) = Suc (bit_length (numeral k))"
  "bit_length (numeral (Num.Bit1 k)) = Suc (bit_length (numeral k))"
proof -
  show "bit_length 0 = 0" by (simp add: bit_length.simps)
  show "bit_length 1 = 1" by (simp add: bit_length.simps)
  show "bit_length (Suc 0) = 1" by (simp add: bit_length.simps)
  have "numeral (Num.Bit0 k) div 2 = (numeral k :: nat)" by simp
  then show "bit_length (numeral (Num.Bit0 k)) = Suc (bit_length (numeral k))"
    by (subst bit_length.simps) simp
  have "numeral (Num.Bit1 k) div 2 = (numeral k :: nat)" by simp
  then show "bit_length (numeral (Num.Bit1 k)) = Suc (bit_length (numeral k))"
    by (subst bit_length.simps) simp
qed

lemmas float_eval = round_ratio_def floor_log2_def round_half_even_def round_scaled_def
  fmul_def fadd_def Let_def bit_length_numeral

lemma fadd_zero_left: "e \<le> 0 \<Longrightarrow> fadd (0, 0) (m, e) = round_scaled m e"
  by (simp add: fadd_def min_def)

lemma totals_loop_foldl:
  "totals_loop items (s, t) =
     (foldl fadd s (map item_total items), foldl fadd t (map item_tax items))"
  by (induction items arbitrary: s t) simp_all

lemma order_totals_foldl:
  "order_totals items =
     (foldl fadd (0, 0) (map item_total items),
      foldl fadd (0, 0) (map item_tax items),
      fadd (foldl fadd (0, 0) (map item_total items)) (foldl fadd (0, 0) (map item_tax items)))"
  by (simp add: order_totals_def totals_loop_foldl)

text \<open>
  The conversions, products and sums of the examples. The float nearest to 0.1 is
  \<open>7205759403792794 / 2 ^ 56\<close>, as Python's \<^verbatim>\<open>(0.1).as_integer_ratio()\<close> gives it
  (in lowest terms).
\<close>

lemma example_conversions:
  "round_ratio 1000 10000 = (7205759403792794, - 56)"
  "round_ratio 10 100 = (7205759403792794, - 56)"
  "round_ratio 30 100 = (5404319552844595, - 54)"
  "round_ratio 2000 100 = (5629499534213120, - 48)"
  "round_ratio 500 100 = (5629499534213120, - 50)"
  "round_ratio 2 1 = (4503599627370496, - 51)"
  "round_ratio 1 1 = (4503599627370496, - 52)"
  "round_ratio 0 10000 = (0, 0)"
  by (simp_all add: float_eval)

lemma example_products:
  "fmul (4503599627370496, - 51) (10, 0) = (5629499534213120, - 48)"
  "fmul (4503599627370496, - 52) (5, 0) = (5629499534213120, - 50)"
  "fmul (5629499534213120, - 48) (7205759403792794, - 56) = (4503599627370496, - 51)"
  "fmul (5629499534213120, - 50) (0, 0) = (0, 0)"
  "fmul (7205759403792794, - 56) (0, 0) = (0, 0)"
  by (simp_all add: float_eval)

lemma example_roundings:
  "round_scaled 5629499534213120 (- 48) = (5629499534213120, - 48)"
  "round_scaled 4503599627370496 (- 51) = (4503599627370496, - 51)"
  "round_scaled 7205759403792794 (- 56) = (7205759403792794, - 56)"
  by (simp_all add: float_eval)

lemma example_sums:
  "fadd (0, 0) (5629499534213120, - 48) = (5629499534213120, - 48)"
  "fadd (0, 0) (4503599627370496, - 51) = (4503599627370496, - 51)"
  "fadd (0, 0) (7205759403792794, - 56) = (7205759403792794, - 56)"
  by (simp_all add: fadd_zero_left example_roundings)

lemma example_sums_nonzero:
  "fadd (5629499534213120, - 48) (5629499534213120, - 50) = (7036874417766400, - 48)"
  "fadd (4503599627370496, - 51) (0, 0) = (4503599627370496, - 51)"
  "fadd (7036874417766400, - 48) (4503599627370496, - 51) = (7599824371187712, - 48)"
  "fadd (7205759403792794, - 56) (7205759403792794, - 56) = (7205759403792794, - 55)"
  "fadd (7205759403792794, - 55) (7205759403792794, - 56) = (5404319552844596, - 54)"
  "fadd (0, 0) (0, 0) = (0, 0)"
  by (simp_all add: float_eval)

lemma example_values:
  "float_val (7036874417766400, - 48) = 25" "float_val (4503599627370496, - 51) = 2"
  "float_val (7599824371187712, - 48) = 27"
  "float_val (5404319552844596, - 54) = 1351079888211149 / 4503599627370496"
  "float_val (5404319552844595, - 54) = 5404319552844595 / 18014398509481984"
  by (simp_all add: float_val_def)

lemma spec_line_totals:
  "item_total (totals_line 2 (Decimal 1000 2) (Decimal 1000 4)) = (5629499534213120, - 48)"
  "item_total (totals_line 1 (Decimal 500 2) (Decimal 0 4)) = (5629499534213120, - 50)"
  "item_total (totals_line 2 (Float 10 0) (Float 7205759403792794 (- 56)))
     = (5629499534213120, - 48)"
  "item_total (totals_line 1 (Float 5 0) (Float 0 0)) = (5629499534213120, - 50)"
  "item_total (totals_line 1 (Decimal 10 2) (Decimal 0 4)) = (7205759403792794, - 56)"
  by (simp_all add: item_total_def totals_line_def example_conversions example_products)

lemma spec_line_taxes:
  "item_tax (totals_line 2 (Decimal 1000 2) (Decimal 1000 4)) = (4503599627370496, - 51)"
  "item_tax (totals_line 1 (Decimal 500 2) (Decimal 0 4)) = (0, 0)"
  "item_tax (totals_line 2 (Float 10 0) (Float 7205759403792794 (- 56)))
     = (4503599627370496, - 51)"
  "item_tax (totals_line 1 (Float 5 0) (Float 0 0)) = (0, 0)"
  "item_tax (totals_line 1 (Decimal 10 2) (Decimal 0 4)) = (0, 0)"
  by (simp_all add: item_tax_def spec_line_totals)
    (simp_all add: totals_line_def example_conversions example_products)

lemma order_totals_examples:
  "order_totals spec_lines =
     ((7036874417766400, - 48), (4503599627370496, - 51), (7599824371187712, - 48))"
  "order_totals spec_lines_as_floats =
     ((7036874417766400, - 48), (4503599627370496, - 51), (7599824371187712, - 48))"
  "fst (order_totals three_dimes) = (5404319552844596, - 54)"
  by (simp_all add: order_totals_def spec_lines_def spec_lines_as_floats_def three_dimes_def
      spec_line_totals spec_line_taxes example_sums example_sums_nonzero)

lemma exact_examples:
  "exact_subtotal spec_lines = 25" "exact_tax spec_lines = 2"
  "exact_subtotal three_dimes = 3 / 10"
  by (simp_all add: exact_subtotal_def exact_tax_def spec_lines_def three_dimes_def
      totals_line_def)

text \<open>
  C9, as the code has it. The totals are computed in binary64 floating point, every
  operation rounded to the nearest float: the subtotal is the float sum, in the order of
  the lines and from 0.0, of \<^verbatim>\<open>float(quantity * unitPrice)\<close>; the tax is the float sum
  of each item total times \<^verbatim>\<open>float(taxRate)\<close>; the total is the float sum of the two.
  For the spec's lines (2 at 10.00 with tax rate 0.10, 1 at 5.00 with tax rate 0.0),
  held as decimals or as floats, the result is exactly 25, 2 and 27, the exact sums.
\<close>

theorem order_totals_in_floating_point:
  "order_totals items =
     (foldl fadd (0, 0) (map item_total items),
      foldl fadd (0, 0) (map item_tax items),
      fadd (foldl fadd (0, 0) (map item_total items)) (foldl fadd (0, 0) (map item_tax items)))
   \<and> map float_val (case order_totals spec_lines of (s, t, u) \<Rightarrow> [s, t, u]) = [25, 2, 27]
   \<and> map float_val (case order_totals spec_lines_as_floats of (s, t, u) \<Rightarrow> [s, t, u])
       = [25, 2, 27]
   \<and> exact_subtotal spec_lines = 25 \<and> exact_tax spec_lines = 2"
proof -
  have 1: "map float_val (case order_totals spec_lines of (s, t, u) \<Rightarrow> [s, t, u]) = [25, 2, 27]"
    by (simp add: order_totals_examples example_values)
  have 2: "map float_val (case order_totals spec_lines_as_floats of (s, t, u) \<Rightarrow> [s, t, u])
       = [25, 2, 27]"
    by (simp add: order_totals_examples example_values)
  from order_totals_foldl[of items] 1 2 exact_examples(1,2) show ?thesis by blast
qed

text \<open>
  C9 as stated fails: for three lines of one unit at 0.10 the exact subtotal is 0.30;
  the code's subtotal is the float 0.30000000000000004, which is neither 0.30 nor the
  float nearest to it.
\<close>

theorem order_totals_counterexample:
  "exact_subtotal three_dimes = 3 / 10
   \<and> float_val (fst (order_totals three_dimes)) = 1351079888211149 / 4503599627370496
   \<and> float_val (fst (order_totals three_dimes)) \<noteq> exact_subtotal three_dimes
   \<and> float_val (fst (order_totals three_dimes)) \<noteq> float_val (py_float (Decimal 30 2))"
  by (simp add: exact_examples order_totals_examples example_values example_conversions)


end
